theory Spec2Isabelle
  imports Complex_Main "HOL-Library.Multiset"
begin

section \<open>Values of the JavaScript runtime\<close>

text \<open>
  The job portal keeps four MongoDB collections (job seekers, employers, jobs and
  applications) and serves them through route handlers. The handlers are embedded here as
  functions from a database state and a request to a response and the next database state.

  An ObjectId is a natural number; comparing two ids through \<open>toString()\<close> is equality.
  A string is a list of characters and its \<open>length\<close> is the length of the list. What
  \<open>toLowerCase\<close> and \<open>trim\<close> make of a string is decided by the Unicode tables of the
  runtime, so the two functions are parameters of the model, like the other library
  functions below, and no theorem depends on which letters have a lower case or which
  characters count as white space.

  A text field of a JSON body that may be missing is a \<open>string option\<close>, and JavaScript's
  truthiness test on it (\<open>!x\<close>) is \<open>truthy\<close>: \<open>undefined\<close> and the empty string are
  falsy. The bodies of the registration, login, password reset and apply requests are
  JSON objects whose fields are strings or missing. The body of the employer's PATCH is a
  JSON object whose two fields \<open>status\<close> and \<open>rating\<close> are arbitrary JSON values, because
  the handler uses them without looking at their types. A JSON number is a rational
  number here; a literal too large for a double is read as \<open>Infinity\<close>, which every
  comparison below treats like a number greater than 5.
\<close>

type_synonym objid = nat

definition truthy :: "string option \<Rightarrow> bool" where
  "truthy v = (case v of None \<Rightarrow> False | Some s \<Rightarrow> s \<noteq> [])"

definition or_empty :: "string option \<Rightarrow> string" where
  \<comment> \<open>\<open>(x || '')\<close>\<close>
  "or_empty v = (case v of None \<Rightarrow> [] | Some s \<Rightarrow> s)"

definition str_includes :: "string \<Rightarrow> char \<Rightarrow> bool" where
  "str_includes s c = (c \<in> set s)"

datatype json =
    JNull
  | JBool bool
  | JNum rat
  | JStr string
  | JArr "json list"
  | JObj "(string \<times> json) list"

datatype 'a outcome = Throws | Returns 'a

section \<open>Library functions the handlers call\<close>

text \<open>
  The signed token, bcrypt, the ObjectId constructor, the date parsers, the clock and the
  string functions of the runtime are library code outside the repository. They are
  parameters of every handler, collected in one record, so every theorem holds for
  whatever these functions compute.
\<close>

record jwt_payload =
  jwt_userId :: objid
  jwt_role :: string
  jwt_username :: string

record env =
  verifyToken :: "string \<Rightarrow> jwt_payload option"
    \<comment> \<open>\<open>jwt.verify\<close> under the try/catch of \<open>lib/auth.ts\<close>: \<open>None\<close> is \<open>null\<close>\<close>
  createToken :: "jwt_payload \<Rightarrow> string"
  verifyPassword :: "string \<Rightarrow> string \<Rightarrow> bool"
    \<comment> \<open>\<open>bcrypt.compare(plaintext, hash)\<close>\<close>
  hashPassword :: "string \<Rightarrow> string"
    \<comment> \<open>\<open>bcrypt.hash\<close> with the salt drawn for this request\<close>
  isValidObjectId :: "string \<Rightarrow> bool"
    \<comment> \<open>\<open>mongoose.Types.ObjectId.isValid\<close>\<close>
  newObjectId :: "string \<Rightarrow> objid option"
    \<comment> \<open>\<open>new mongoose.Types.ObjectId(s)\<close>: \<open>None\<close> when the constructor throws\<close>
  freshObjectId :: objid
    \<comment> \<open>the \<open>_id\<close> the driver gives the document this request creates\<close>
  jsDate :: "string \<Rightarrow> int option"
    \<comment> \<open>\<open>new Date(s)\<close> in milliseconds: \<open>None\<close> for an Invalid Date\<close>
  mongoDate :: "string \<Rightarrow> int option"
    \<comment> \<open>\<open>$dateFromString\<close>: \<open>None\<close> when the server raises a conversion error\<close>
  isoDay :: "int \<Rightarrow> string"
    \<comment> \<open>\<open>toISOString().split('T')[0]\<close>\<close>
  now :: int
    \<comment> \<open>\<open>new Date()\<close> while the request is served\<close>
  secureToken :: string
    \<comment> \<open>\<open>generateSecureToken()\<close>: random bytes in hex\<close>
  toLowerCase :: "string \<Rightarrow> string"
    \<comment> \<open>\<open>String.prototype.toLowerCase\<close>\<close>
  trim :: "string \<Rightarrow> string"
    \<comment> \<open>\<open>String.prototype.trim\<close>\<close>
  stringToNumber :: "string \<Rightarrow> rat option"
    \<comment> \<open>\<open>Number(s)\<close> for a string: \<open>None\<close> when the result is \<open>NaN\<close> or infinite, which
        no comparison with 0 and 5 accepts\<close>
  toPrimitive :: "json \<Rightarrow> string option"
    \<comment> \<open>the string an array or object becomes when it is compared with a number (its
        \<open>toString()\<close>): \<open>None\<close> when the conversion throws a TypeError\<close>

section \<open>Documents and collections\<close>

text \<open>
  The records follow the Mongoose schemas of \<open>lib/models\<close>. Fields that no handler below
  reads or writes (salary, skills, company profile and so on) are left out. The ids of an
  \<open>appliedJobs\<close> entry are \<open>required\<close> in the schema, so they are plain ids here and the
  handlers' guards against a missing id (\<open>appliedJob.jobId &&\<close>) are always passed.
\<close>

record application =
  app_id :: objid
  app_jobId :: objid
  app_jobSeekerId :: objid
  app_applicantName :: string
  app_applicantEmail :: string
  app_status :: string
  app_resume :: string
  app_coverLetter :: string
  app_rating :: "rat option"
    \<comment> \<open>\<open>None\<close> is a stored \<open>null\<close>\<close>
  app_appliedDate :: int

record applied_job =
  aj_jobId :: objid
  aj_applicationId :: objid
  aj_jobTitle :: string
  aj_company :: string
  aj_location :: string
  aj_status :: string
  aj_appliedDate :: int
  aj_coverLetter :: string
  aj_resume :: string
  aj_rating :: "rat option"

record job =
  job_id :: objid
  job_employerId :: objid
  job_title :: string
  job_company :: string
  job_location :: string
  job_deadline :: "string option"
  job_status :: string
  job_applicants :: int
  job_postedDate :: int

record user =
  u_id :: objid
  u_username :: string
  u_passwordHash :: string
  u_role :: string
  u_isEmailVerified :: bool
  u_emailVerificationToken :: string
  u_emailVerificationTokenExpiry :: "int option"
  u_passwordResetToken :: string
  u_passwordResetTokenExpiry :: "int option"
  u_firstName :: string
  u_lastName :: string
  u_email :: string

record jobseeker = user +
  appliedJobs :: "applied_job list"

record db =
  jobseekers :: "jobseeker list"
  employers :: "user list"
  jobs :: "job list"
  applications :: "application list"

text \<open>
  A collection is the list of its documents. \<open>findOne\<close> returns the first document that
  matches, \<open>updateOne\<close> changes the first match only, \<open>updateMany\<close> and \<open>deleteMany\<close>
  act on every match.
\<close>

definition findOne :: "('a \<Rightarrow> bool) \<Rightarrow> 'a list \<Rightarrow> 'a option" where
  "findOne P xs = List.find P xs"

fun updateOne :: "('a \<Rightarrow> bool) \<Rightarrow> ('a \<Rightarrow> 'a) \<Rightarrow> 'a list \<Rightarrow> 'a list" where
  "updateOne P f [] = []"
| "updateOne P f (x # xs) = (if P x then f x # xs else x # updateOne P f xs)"

definition updateMany :: "('a \<Rightarrow> bool) \<Rightarrow> ('a \<Rightarrow> 'a) \<Rightarrow> 'a list \<Rightarrow> 'a list" where
  "updateMany P f xs = map (\<lambda>x. if P x then f x else x) xs"

fun deleteOne :: "('a \<Rightarrow> bool) \<Rightarrow> 'a list \<Rightarrow> 'a list" where
  "deleteOne P [] = []"
| "deleteOne P (x # xs) = (if P x then xs else x # deleteOne P xs)"

definition deleteMany :: "('a \<Rightarrow> bool) \<Rightarrow> 'a list \<Rightarrow> 'a list" where
  "deleteMany P xs = filter (\<lambda>x. \<not> P x) xs"

section \<open>Responses\<close>

record 'a response =
  status :: nat
  message :: string
  payload :: "'a option"
  auth_token :: "string option"
    \<comment> \<open>the \<open>auth_token\<close> cookie the response sets, if any\<close>

definition reply :: "nat \<Rightarrow> string \<Rightarrow> 'a response" where
  "reply st msg = \<lparr>status = st, message = msg, payload = None, auth_token = None\<rparr>"

definition reply_with :: "nat \<Rightarrow> 'a \<Rightarrow> 'a response" where
  "reply_with st x = \<lparr>status = st, message = [], payload = Some x, auth_token = None\<rparr>"

section \<open>Setters and casts of Mongoose\<close>

text \<open>
  A schema path with \<open>trim: true\<close> or \<open>lowercase: true\<close> has setters. Mongoose runs them
  on a value the application assigns to a document and also on a value of a query filter
  for that path, so \<open>findOne({ username: x })\<close> looks for the documents whose stored user
  name is \<open>x\<close> in lower case and trimmed. The paths \<open>username\<close>, \<open>email\<close> and
  \<open>applicantEmail\<close> have both setters; Mongoose runs the one declared last first, so the
  value is put in lower case and then trimmed.

  An update through \<open>findByIdAndUpdate\<close> or \<open>updateOne\<close> casts its values to the types of
  the schema and runs no validator. The cast to \<open>Number\<close> leaves \<open>null\<close> and turns the empty
  string into \<open>null\<close>; a boolean and any other string become \<open>Number(val)\<close>; what then is
  not a number raises a CastError, and so does an array.
\<close>

definition lower_trim :: "env \<Rightarrow> string \<Rightarrow> string" where
  \<comment> \<open>the setters of a path with \<open>trim: true, lowercase: true\<close>\<close>
  "lower_trim env s = trim env (toLowerCase env s)"

definition castNumber :: "env \<Rightarrow> json \<Rightarrow> rat option outcome" where
  \<comment> \<open>the cast of a value for a \<open>Number\<close> path; \<open>Throws\<close> is the CastError\<close>
  "castNumber env v =
     (case v of
        JNull \<Rightarrow> Returns None
      | JBool b \<Rightarrow> Returns (Some (if b then 1 else 0))
      | JNum r \<Rightarrow> Returns (Some r)
      | JStr s \<Rightarrow>
          if s = [] then Returns None
          else (case stringToNumber env s of None \<Rightarrow> Throws | Some r \<Rightarrow> Returns (Some r))
      | JArr xs \<Rightarrow> Throws
      | JObj kvs \<Rightarrow> Throws)"

section \<open>PATCH /api/applications/[applicationId]\<close>

text \<open>
  The request carries the cookie, the id of the path and the fields \<open>status\<close> and \<open>rating\<close>
  of its JSON body, each missing (\<open>None\<close>) or any JSON value. A body that is \<open>null\<close> or no
  JSON at all makes the handler fail with 500 before it reads the database; such a
  request is not among the requests below.
\<close>

record patch_request =
  pr_cookie :: "string option"
  pr_applicationId :: string
  pr_status :: "json option"
  pr_rating :: "json option"

definition application_statuses :: "string list" where
  "application_statuses =
     [''Pending'', ''Reviewed'', ''Shortlisted'', ''Interviewed'', ''Selected'', ''Rejected'']"

definition status_accepted :: "json option \<Rightarrow> bool" where
  \<comment> \<open>\<open>status && [...].includes(status)\<close>: \<open>includes\<close> compares without conversion, so
      only a string of the list passes\<close>
  "status_accepted st =
     (case st of
        Some (JStr s) \<Rightarrow> s \<in> set application_statuses
      | _ \<Rightarrow> False)"

definition toNumber :: "env \<Rightarrow> json \<Rightarrow> rat option outcome" where
  \<comment> \<open>the number that \<open>v >= 0\<close> and \<open>v <= 5\<close> compare: \<open>null\<close> is 0, \<open>false\<close> is 0, \<open>true\<close>
      is 1, a string is \<open>Number(s)\<close>, an array or object is first converted to a string.
      \<open>Returns None\<close> is \<open>NaN\<close>; \<open>Throws\<close> is the TypeError of a failed conversion.\<close>
  "toNumber env v =
     (case v of
        JNull \<Rightarrow> Returns (Some 0)
      | JBool b \<Rightarrow> Returns (Some (if b then 1 else 0))
      | JNum r \<Rightarrow> Returns (Some r)
      | JStr s \<Rightarrow> Returns (stringToNumber env s)
      | JArr xs \<Rightarrow>
          (case toPrimitive env v of
             None \<Rightarrow> Throws
           | Some s \<Rightarrow> Returns (stringToNumber env s))
      | JObj kvs \<Rightarrow>
          (case toPrimitive env v of
             None \<Rightarrow> Throws
           | Some s \<Rightarrow> Returns (stringToNumber env s)))"

definition rating_throws :: "env \<Rightarrow> json option \<Rightarrow> bool" where
  \<comment> \<open>evaluating \<open>rating !== undefined && rating >= 0 && rating <= 5\<close> throws\<close>
  "rating_throws env rt =
     (case rt of None \<Rightarrow> False | Some v \<Rightarrow> toNumber env v = Throws)"

definition rating_accepted :: "env \<Rightarrow> json option \<Rightarrow> bool" where
  \<comment> \<open>\<open>rating !== undefined && rating >= 0 && rating <= 5\<close> is true; a comparison with
      \<open>NaN\<close> is false\<close>
  "rating_accepted env rt =
     (case rt of
        None \<Rightarrow> False
      | Some v \<Rightarrow>
          (case toNumber env v of
             Returns (Some r) \<Rightarrow> 0 \<le> r \<and> r \<le> 5
           | _ \<Rightarrow> False))"

record 'n update_doc =
  ud_status :: "string option"
  ud_rating :: "'n option"
    \<comment> \<open>the keys of a \<open>$set\<close> object: \<open>None\<close> is a key that is not there\<close>

definition updateFields :: "env \<Rightarrow> patch_request \<Rightarrow> json update_doc" where
  "updateFields env req =
     \<lparr>ud_status = (case pr_status req of
                     Some (JStr s) \<Rightarrow> if status_accepted (pr_status req) then Some s else None
                   | _ \<Rightarrow> None),
      ud_rating = (if rating_accepted env (pr_rating req) then pr_rating req else None)\<rparr>"

definition updateAppliedJobs :: "env \<Rightarrow> patch_request \<Rightarrow> json update_doc" where
  \<comment> \<open>the keys \<open>appliedJobs.$.status\<close> and \<open>appliedJobs.$.rating\<close>, under the same tests\<close>
  "updateAppliedJobs env req =
     \<lparr>ud_status = (case pr_status req of
                     Some (JStr s) \<Rightarrow> if status_accepted (pr_status req) then Some s else None
                   | _ \<Rightarrow> None),
      ud_rating = (if rating_accepted env (pr_rating req) then pr_rating req else None)\<rparr>"

definition cast_update :: "env \<Rightarrow> json update_doc \<Rightarrow> rat option update_doc outcome" where
  \<comment> \<open>Mongoose casts the \<open>$set\<close> object before it sends the update: the status is a
      string already, the rating goes through \<open>castNumber\<close>\<close>
  "cast_update env u =
     (case ud_rating u of
        None \<Rightarrow> Returns \<lparr>ud_status = ud_status u, ud_rating = None\<rparr>
      | Some v \<Rightarrow>
          (case castNumber env v of
             Throws \<Rightarrow> Throws
           | Returns n \<Rightarrow> Returns \<lparr>ud_status = ud_status u, ud_rating = Some n\<rparr>))"

definition set_application :: "rat option update_doc \<Rightarrow> application \<Rightarrow> application" where
  \<comment> \<open>\<open>{ $set: updateFields }\<close> on an application\<close>
  "set_application u a =
     (let a1 = (case ud_status u of None \<Rightarrow> a | Some s \<Rightarrow> a\<lparr>app_status := s\<rparr>)
      in (case ud_rating u of None \<Rightarrow> a1 | Some n \<Rightarrow> a1\<lparr>app_rating := n\<rparr>))"

definition set_appliedJob :: "rat option update_doc \<Rightarrow> applied_job \<Rightarrow> applied_job" where
  \<comment> \<open>\<open>{ $set: updateAppliedJobs }\<close> on the entry the positional \<open>$\<close> stands for\<close>
  "set_appliedJob u e =
     (let e1 = (case ud_status u of None \<Rightarrow> e | Some s \<Rightarrow> e\<lparr>aj_status := s\<rparr>)
      in (case ud_rating u of None \<Rightarrow> e1 | Some n \<Rightarrow> e1\<lparr>aj_rating := n\<rparr>))"

definition update_appliedJobs_entry ::
  "env \<Rightarrow> patch_request \<Rightarrow> objid \<Rightarrow> objid \<Rightarrow> db \<Rightarrow> db outcome" where
  \<comment> \<open>the handler's second write: \<open>JobSeeker.updateOne\<close> with the positional \<open>$\<close>, which
      sets the first entry whose \<open>applicationId\<close> matches; skipped when no field was accepted\<close>
  "update_appliedJobs_entry env req jobSeekerIdObjectId applicationIdObjectId d =
     (if ud_status (updateAppliedJobs env req) = None \<and> ud_rating (updateAppliedJobs env req) = None
      then Returns d
      else (case cast_update env (updateAppliedJobs env req) of
              Throws \<Rightarrow> Throws
            | Returns u \<Rightarrow>
                Returns (d\<lparr>jobseekers :=
                  updateOne
                    (\<lambda>s. u_id s = jobSeekerIdObjectId \<and>
                         (\<exists>e \<in> set (appliedJobs s). aj_applicationId e = applicationIdObjectId))
                    (\<lambda>s. s\<lparr>appliedJobs :=
                         updateOne (\<lambda>e. aj_applicationId e = applicationIdObjectId)
                           (set_appliedJob u) (appliedJobs s)\<rparr>)
                    (jobseekers d)\<rparr>)))"

definition applications_id_PATCH ::
  "env \<Rightarrow> db \<Rightarrow> patch_request \<Rightarrow> application response \<times> db" where
  "applications_id_PATCH env d req =
     (case pr_cookie req of
        None \<Rightarrow> (reply 401 ''Authentication required.'', d)
      | Some token \<Rightarrow>
          if token = [] then (reply 401 ''Authentication required.'', d)
          else (case verifyToken env token of
            None \<Rightarrow> (reply 401 ''Invalid or expired token.'', d)
          | Some decoded \<Rightarrow>
              if jwt_role decoded \<noteq> ''employer''
              then (reply 403 ''Access denied. Only employers can update application status.'', d)
              else (case newObjectId env (pr_applicationId req) of
                None \<Rightarrow> (reply 500 ''Internal server error while updating application.'', d)
              | Some applicationIdObjectId \<Rightarrow>
                  (case findOne (\<lambda>a. app_id a = applicationIdObjectId) (applications d) of
                     None \<Rightarrow> (reply 404 ''Application not found.'', d)
                   | Some application \<Rightarrow>
                       (case findOne (\<lambda>j. job_id j = app_jobId application) (jobs d) of
                          None \<Rightarrow> (reply 404 ''Job not found.'', d)
                        | Some job \<Rightarrow>
                            if job_employerId job \<noteq> jwt_userId decoded
                            then (reply 403
                              ''Access denied. You can only update applications for your own jobs.'', d)
                            else if rating_throws env (pr_rating req)
                            then (reply 500 ''Internal server error while updating application.'', d)
                            else
                              (case cast_update env (updateFields env req) of
                                 Throws \<Rightarrow>
                                   (reply 500 ''Internal server error while updating application.'', d)
                               | Returns castFields \<Rightarrow>
                                   (let d1 = d\<lparr>applications :=
                                          updateOne (\<lambda>a. app_id a = applicationIdObjectId)
                                            (set_application castFields) (applications d)\<rparr>
                                    in (case findOne (\<lambda>a. app_id a = applicationIdObjectId)
                                               (applications d1) of
                                          None \<Rightarrow> (reply 500 ''Failed to update application.'', d1)
                                        | Some updatedApplication \<Rightarrow>
                                            (case update_appliedJobs_entry env req
                                                    (app_jobSeekerId updatedApplication)
                                                    applicationIdObjectId d1 of
                                               Throws \<Rightarrow>
                                                 (reply 500
                                                    ''Internal server error while updating application.'',
                                                  d1)
                                             | Returns d2 \<Rightarrow>
                                                 (reply_with 200 updatedApplication, d2))))))))))"

section \<open>Schema validation\<close>

text \<open>
  \<open>create\<close> and \<open>save\<close> run the schema's validators; \<open>findByIdAndUpdate\<close> and \<open>updateOne\<close>
  do not. A \<open>required\<close> string must be non-empty, an \<open>enum\<close> field must hold one of its
  values, and a number must lie between \<open>min\<close> and \<open>max\<close>; the \<open>min\<close> and \<open>max\<close>
  validators pass a \<open>null\<close>.
\<close>

datatype db_error = DuplicateKey | ValidationError

definition rating_valid :: "rat option \<Rightarrow> bool" where
  \<comment> \<open>\<open>min: 0, max: 5\<close>\<close>
  "rating_valid n = (case n of None \<Rightarrow> True | Some r \<Rightarrow> 0 \<le> r \<and> r \<le> 5)"

definition application_valid :: "application \<Rightarrow> bool" where
  "application_valid a =
     (app_applicantName a \<noteq> [] \<and> app_applicantEmail a \<noteq> [] \<and>
      app_status a \<in> set application_statuses \<and> rating_valid (app_rating a))"

definition Application_create ::
  "env \<Rightarrow> application \<Rightarrow> application list \<Rightarrow> db_error + (application \<times> application list)" where
  \<comment> \<open>the unique indexes are \<open>_id\<close> and \<open>(jobId, jobSeekerId)\<close>\<close>
  "Application_create env a xs =
     (let doc = a\<lparr>app_applicantName := trim env (app_applicantName a),
                   app_applicantEmail := lower_trim env (app_applicantEmail a),
                   app_resume := trim env (app_resume a),
                   app_coverLetter := trim env (app_coverLetter a)\<rparr>
      in if \<not> application_valid doc then Inl ValidationError
         else if \<exists>b \<in> set xs. app_id b = app_id doc \<or>
                   (app_jobId b = app_jobId doc \<and> app_jobSeekerId b = app_jobSeekerId doc)
         then Inl DuplicateKey
         else Inr (doc, xs @ [doc]))"

definition applied_job_valid :: "applied_job \<Rightarrow> bool" where
  "applied_job_valid e =
     (aj_jobTitle e \<noteq> [] \<and> aj_company e \<noteq> [] \<and> aj_location e \<noteq> [] \<and>
      aj_status e \<in> set application_statuses \<and> rating_valid (aj_rating e))"

definition jobseeker_valid :: "jobseeker \<Rightarrow> bool" where
  "jobseeker_valid s =
     (u_username s \<noteq> [] \<and> u_passwordHash s \<noteq> [] \<and> u_role s = ''job-seeker'' \<and>
      u_firstName s \<noteq> [] \<and> u_lastName s \<noteq> [] \<and>
      (\<forall>e \<in> set (appliedJobs s). applied_job_valid e))"

definition JobSeeker_save :: "jobseeker \<Rightarrow> jobseeker list \<Rightarrow> db_error + jobseeker list" where
  "JobSeeker_save s xs =
     (if jobseeker_valid s then Inr (updateOne (\<lambda>x. u_id x = u_id s) (\<lambda>x. s) xs)
      else Inl ValidationError)"

section \<open>POST /api/applications\<close>

record apply_request =
  ar_cookie :: "string option"
  ar_jobId :: "string option"
  ar_coverLetter :: "string option"
  ar_resume :: "string option"

definition deadline_passed :: "env \<Rightarrow> job \<Rightarrow> bool" where
  \<comment> \<open>\<open>job.deadline && new Date() > new Date(job.deadline)\<close>; false for an Invalid Date\<close>
  "deadline_passed env j =
     (case job_deadline j of
        None \<Rightarrow> False
      | Some dl \<Rightarrow> dl \<noteq> [] \<and> (case jsDate env dl of None \<Rightarrow> False | Some t \<Rightarrow> t < now env))"

definition applicationData ::
  "env \<Rightarrow> objid \<Rightarrow> objid \<Rightarrow> jobseeker \<Rightarrow> apply_request \<Rightarrow> application" where
  "applicationData env jobIdObjectId jobSeekerIdObjectId jobSeeker req =
     \<lparr>app_id = freshObjectId env,
      app_jobId = jobIdObjectId,
      app_jobSeekerId = jobSeekerIdObjectId,
      app_applicantName = trim env (u_firstName jobSeeker @ '' '' @ u_lastName jobSeeker),
      app_applicantEmail =
        (if trim env (u_email jobSeeker) \<noteq> [] then trim env (u_email jobSeeker)
         else u_username jobSeeker @ ''@email.com''),
      app_status = ''Pending'',
      app_resume = trim env (or_empty (ar_resume req)),
      app_coverLetter = trim env (or_empty (ar_coverLetter req)),
      app_rating = Some 0,
      app_appliedDate = now env\<rparr>"

definition appliedJobData ::
  "env \<Rightarrow> objid \<Rightarrow> job \<Rightarrow> application \<Rightarrow> apply_request \<Rightarrow> applied_job" where
  \<comment> \<open>the entry as \<open>save\<close> stores it: the schema trims its strings\<close>
  "appliedJobData env jobIdObjectId j application req =
     \<lparr>aj_jobId = jobIdObjectId,
      aj_applicationId = app_id application,
      aj_jobTitle = trim env (job_title j),
      aj_company = trim env (job_company j),
      aj_location = trim env (job_location j),
      aj_status = ''Pending'',
      aj_appliedDate = now env,
      aj_coverLetter = trim env (or_empty (ar_coverLetter req)),
      aj_resume = trim env (or_empty (ar_resume req)),
      aj_rating = Some 0\<rparr>"

definition store_appliedJob :: "objid \<Rightarrow> objid \<Rightarrow> applied_job \<Rightarrow> db \<Rightarrow> db" where
  \<comment> \<open>the second try block of the handler; whatever it throws is logged and dropped\<close>
  "store_appliedJob jobSeekerIdObjectId jobIdObjectId entry d =
     (case findOne (\<lambda>s. u_id s = jobSeekerIdObjectId) (jobseekers d) of
        None \<Rightarrow> d
      | Some jobSeekerDoc \<Rightarrow>
          if \<exists>e \<in> set (appliedJobs jobSeekerDoc). aj_jobId e = jobIdObjectId then d
          else (case JobSeeker_save
                       (jobSeekerDoc\<lparr>appliedJobs := appliedJobs jobSeekerDoc @ [entry]\<rparr>)
                       (jobseekers d) of
                  Inl err \<Rightarrow> d
                | Inr saved \<Rightarrow> d\<lparr>jobseekers := saved\<rparr>))"

definition apply_to_job ::
  "env \<Rightarrow> db \<Rightarrow> apply_request \<Rightarrow> objid \<Rightarrow> objid \<Rightarrow> application response \<times> db" where
  \<comment> \<open>the handler from \<open>Job.findById\<close> on, for a decoded job seeker and a parsed job id\<close>
  "apply_to_job env d req jobSeekerIdObjectId jobIdObjectId =
     (case findOne (\<lambda>j. job_id j = jobIdObjectId) (jobs d) of
        None \<Rightarrow> (reply 404 ''Job not found.'', d)
      | Some j \<Rightarrow>
          if job_status j \<noteq> ''Active''
          then (reply 400 ''This job is no longer accepting applications.'', d)
          else if deadline_passed env j
          then (reply 400 ''Application deadline has passed.'',
                d\<lparr>jobs := updateOne (\<lambda>x. job_id x = jobIdObjectId)
                              (\<lambda>x. x\<lparr>job_status := ''Closed''\<rparr>) (jobs d)\<rparr>)
          else (case findOne (\<lambda>a. app_jobId a = jobIdObjectId \<and>
                                    app_jobSeekerId a = jobSeekerIdObjectId) (applications d) of
            Some existingApplication \<Rightarrow>
              (reply 400 ''You have already applied to this job.'', d)
          | None \<Rightarrow>
              (case findOne (\<lambda>s. u_id s = jobSeekerIdObjectId) (jobseekers d) of
                 None \<Rightarrow> (reply 404 ''Job seeker profile not found.'', d)
               | Some jobSeeker \<Rightarrow>
                   if u_firstName jobSeeker = [] \<or> u_lastName jobSeeker = []
                   then (reply 400 ''Job seeker profile is incomplete. Please complete your profile before applying.'', d)
                   else if \<exists>e \<in> set (appliedJobs jobSeeker). aj_jobId e = jobIdObjectId
                   then (reply 400 ''You have already applied to this job.'', d)
                   else (case Application_create env
                                (applicationData env jobIdObjectId jobSeekerIdObjectId jobSeeker req)
                                (applications d) of
                     Inl err \<Rightarrow>
                       (reply 500 ''Internal server error while creating application. Please try again.'', d)
                   | Inr (application, stored) \<Rightarrow>
                       (let d1 = d\<lparr>applications := stored,
                                   jobs := updateOne (\<lambda>x. job_id x = jobIdObjectId)
                                     (\<lambda>x. x\<lparr>job_applicants := job_applicants x + 1\<rparr>) (jobs d)\<rparr>
                        in (reply_with 201 application,
                            store_appliedJob jobSeekerIdObjectId jobIdObjectId
                              (appliedJobData env jobIdObjectId j application req) d1))))))"

definition applications_POST ::
  "env \<Rightarrow> db \<Rightarrow> apply_request \<Rightarrow> application response \<times> db" where
  "applications_POST env d req =
     (case ar_cookie req of
        None \<Rightarrow> (reply 401 ''Authentication required.'', d)
      | Some token \<Rightarrow>
          if token = [] then (reply 401 ''Authentication required.'', d)
          else (case verifyToken env token of
            None \<Rightarrow> (reply 401 ''Invalid or expired token.'', d)
          | Some decoded \<Rightarrow>
              if jwt_role decoded \<noteq> ''job-seeker''
              then (reply 403 ''Access denied. Only job seekers can apply.'', d)
              else if \<not> truthy (ar_jobId req) then (reply 400 ''Job ID is required.'', d)
              else if \<not> isValidObjectId env (or_empty (ar_jobId req))
              then (reply 400 ''Invalid job ID format. Please refresh the page and try again.'', d)
              else if length (or_empty (ar_jobId req)) \<noteq> 24
              then (reply 400 ''Invalid job ID format. Expected 24-character MongoDB ObjectId.'', d)
              else (case newObjectId env (or_empty (ar_jobId req)) of
                None \<Rightarrow>
                  (reply 400 ''Invalid job ID format. Please refresh the page and try again.'', d)
              | Some jobIdObjectId \<Rightarrow>
                  apply_to_job env d req (jwt_userId decoded) jobIdObjectId)))"

section \<open>DELETE /api/my-applications/[applicationId]\<close>

record delete_request =
  dr_cookie :: "string option"
  dr_id :: string
    \<comment> \<open>the id in the path\<close>

definition remove_appliedJob :: "objid \<Rightarrow> jobseeker \<Rightarrow> jobseeker" where
  \<comment> \<open>the filter on \<open>appliedJobs\<close>: an entry goes when its \<open>applicationId\<close> is the target.
      The fallback on \<open>jobId\<close> is for an entry with no \<open>applicationId\<close>, which the schema
      excludes.\<close>
  "remove_appliedJob applicationIdObjectId s =
     s\<lparr>appliedJobs := filter (\<lambda>e. aj_applicationId e \<noteq> applicationIdObjectId) (appliedJobs s)\<rparr>"

definition my_applications_id_DELETE ::
  "env \<Rightarrow> db \<Rightarrow> delete_request \<Rightarrow> string response \<times> db" where
  "my_applications_id_DELETE env d req =
     (case dr_cookie req of
        None \<Rightarrow> (reply 401 ''Authentication required.'', d)
      | Some token \<Rightarrow>
          if token = [] then (reply 401 ''Authentication required.'', d)
          else (case verifyToken env token of
            None \<Rightarrow> (reply 401 ''Invalid or expired token.'', d)
          | Some decoded \<Rightarrow>
              if jwt_role decoded \<noteq> ''job-seeker''
              then (reply 403 ''Access denied. Job seeker access only.'', d)
              else if dr_id req = [] \<or> \<not> isValidObjectId env (dr_id req)
              then (reply 400 ''Invalid application ID format.'', d)
              else (case newObjectId env (dr_id req) of
                None \<Rightarrow> (reply 400 ''Invalid application ID format.'', d)
              | Some applicationIdObjectId \<Rightarrow>
                  (case findOne (\<lambda>a. app_id a = applicationIdObjectId) (applications d) of
                     None \<Rightarrow> (reply 404 ''Application not found.'', d)
                   | Some application \<Rightarrow>
                       if app_jobSeekerId application \<noteq> jwt_userId decoded
                       then (reply 403 ''Access denied. You can only remove your own applications.'', d)
                       else (case (case findOne (\<lambda>s. u_id s = jwt_userId decoded) (jobseekers d) of
                                     None \<Rightarrow> Inr (jobseekers d)
                                   | Some jobSeeker \<Rightarrow>
                                       JobSeeker_save
                                         (remove_appliedJob applicationIdObjectId jobSeeker)
                                         (jobseekers d)) of
                         Inl err \<Rightarrow>
                           (reply 500 ''Failed to remove application from your list. Please try again.'', d)
                       | Inr saved \<Rightarrow>
                           (reply_with 200 (dr_id req),
                            d\<lparr>jobseekers := saved,
                              applications :=
                                deleteOne (\<lambda>a. app_id a = applicationIdObjectId) (applications d),
                              jobs := updateOne (\<lambda>x. job_id x = app_jobId application)
                                (\<lambda>x. x\<lparr>job_applicants := job_applicants x - 1\<rparr>) (jobs d)\<rparr>))))))"

section \<open>DELETE /api/jobs/[jobId]\<close>

definition unique_ids :: "objid list \<Rightarrow> objid list" where
  \<comment> \<open>\<open>[...new Set(ids)]\<close>: the first occurrence of each id, in order\<close>
  "unique_ids xs = rev (remdups (rev xs))"

definition remove_job_entries :: "objid \<Rightarrow> jobseeker list \<Rightarrow> objid \<Rightarrow> jobseeker list" where
  \<comment> \<open>one turn of the loop over the applicants; a failing \<open>save\<close> is logged and dropped\<close>
  "remove_job_entries jobIdObjectId seekers jobSeekerId =
     (case findOne (\<lambda>s. u_id s = jobSeekerId) seekers of
        None \<Rightarrow> seekers
      | Some jobSeeker \<Rightarrow>
          (let kept = filter (\<lambda>e. aj_jobId e \<noteq> jobIdObjectId) (appliedJobs jobSeeker)
           in if length kept \<noteq> length (appliedJobs jobSeeker)
              then (case JobSeeker_save (jobSeeker\<lparr>appliedJobs := kept\<rparr>) seekers of
                      Inl err \<Rightarrow> seekers
                    | Inr saved \<Rightarrow> saved)
              else seekers))"

definition jobs_id_DELETE :: "env \<Rightarrow> db \<Rightarrow> delete_request \<Rightarrow> string response \<times> db" where
  "jobs_id_DELETE env d req =
     (case dr_cookie req of
        None \<Rightarrow> (reply 401 ''Authentication required.'', d)
      | Some token \<Rightarrow>
          if token = [] then (reply 401 ''Authentication required.'', d)
          else (case verifyToken env token of
            None \<Rightarrow> (reply 401 ''Invalid or expired token.'', d)
          | Some decoded \<Rightarrow>
              if jwt_role decoded \<noteq> ''employer''
              then (reply 403 ''Access denied. Only employers can delete jobs.'', d)
              else (case newObjectId env (dr_id req) of
                None \<Rightarrow> (reply 500 ''Internal server error while deleting job.'', d)
              | Some jobIdObjectId \<Rightarrow>
                  (case findOne (\<lambda>j. job_id j = jobIdObjectId) (jobs d) of
                     None \<Rightarrow> (reply 404 ''Job not found.'', d)
                   | Some j \<Rightarrow>
                       if job_employerId j \<noteq> jwt_userId decoded
                       then (reply 403 ''Access denied. You can only delete your own jobs.'', d)
                       else
                         (let found = filter (\<lambda>a. app_jobId a = jobIdObjectId) (applications d);
                              jobSeekerIds = unique_ids (map app_jobSeekerId found)
                          in (reply 200 ''Job deleted successfully.'',
                              d\<lparr>jobseekers :=
                                  foldl (remove_job_entries jobIdObjectId) (jobseekers d) jobSeekerIds,
                                applications :=
                                  deleteMany (\<lambda>a. app_jobId a = jobIdObjectId) (applications d),
                                jobs := deleteOne (\<lambda>x. job_id x = jobIdObjectId) (jobs d)\<rparr>))))))"

section \<open>GET /api/jobs, GET /api/jobs/employer and GET /api/jobs/[jobId]\<close>

text \<open>
  The public list first closes the expired jobs with one \<open>updateMany\<close>, whose filter
  parses each deadline on the server with \<open>$dateFromString\<close>. The filter's deadline clause
  is an object literal with the key \<open>$ne\<close> twice, so only \<open>$ne: ''\<close> is in force beside
  \<open>$exists\<close>. The documents are visited in order; a deadline the server cannot parse fails
  the command there, the documents updated before it stay updated, and the handler then
  runs its fallback, which compares the deadline with today's date as strings.
\<close>

fun close_expired :: "env \<Rightarrow> job list \<Rightarrow> job list \<times> bool" where
  "close_expired env [] = ([], True)"
| "close_expired env (j # js) =
     (if job_status j = ''Active'' \<and> truthy (job_deadline j)
      then (case mongoDate env (or_empty (job_deadline j)) of
              None \<Rightarrow> (j # js, False)
            | Some t \<Rightarrow>
                ((if t < now env then j\<lparr>job_status := ''Closed''\<rparr> else j) #
                   fst (close_expired env js),
                 snd (close_expired env js)))
      else (j # fst (close_expired env js), snd (close_expired env js)))"

fun str_less :: "string \<Rightarrow> string \<Rightarrow> bool" where
  "str_less [] [] = False"
| "str_less [] (y # ys) = True"
| "str_less (x # xs) [] = False"
| "str_less (x # xs) (y # ys) =
     ((of_char x :: nat) < of_char y \<or> (x = y \<and> str_less xs ys))"

definition close_expired_fallback :: "env \<Rightarrow> job list \<Rightarrow> job list" where
  "close_expired_fallback env js =
     updateMany
       (\<lambda>j. job_status j = ''Active'' \<and> truthy (job_deadline j) \<and>
            str_less (or_empty (job_deadline j)) (isoDay env (now env)))
       (\<lambda>j. j\<lparr>job_status := ''Closed''\<rparr>) js"

definition newest_first :: "job list \<Rightarrow> job list" where
  \<comment> \<open>\<open>.sort({ postedDate: -1 })\<close>\<close>
  "newest_first js = rev (sort_key job_postedDate js)"

definition jobs_GET :: "env \<Rightarrow> db \<Rightarrow> job list response \<times> db" where
  "jobs_GET env d =
     (let closed = (if snd (close_expired env (jobs d)) then fst (close_expired env (jobs d))
                    else close_expired_fallback env (fst (close_expired env (jobs d))))
      in (reply_with 200 (newest_first (filter (\<lambda>j. job_status j = ''Active'') closed)),
          d\<lparr>jobs := closed\<rparr>))"

definition employer_view :: "env \<Rightarrow> application list \<Rightarrow> job \<Rightarrow> job \<times> nat" where
  \<comment> \<open>the job as the employer's list formats it, and its count of pending applications\<close>
  "employer_view env apps j =
     (j\<lparr>job_status := (if job_status j = ''Active'' \<and> deadline_passed env j then ''Closed''
                        else job_status j),
        job_applicants := int (length (filter (\<lambda>a. app_jobId a = job_id j) apps))\<rparr>,
      length (filter (\<lambda>a. app_jobId a = job_id j \<and> app_status a = ''Pending'') apps))"

definition close_if_expired :: "env \<Rightarrow> job list \<Rightarrow> job \<Rightarrow> job list" where
  \<comment> \<open>\<open>Job.findByIdAndUpdate(job._id, { status: 'Closed' })\<close> for an expired active job\<close>
  "close_if_expired env js j =
     (if job_status j = ''Active'' \<and> deadline_passed env j
      then updateOne (\<lambda>x. job_id x = job_id j) (\<lambda>x. x\<lparr>job_status := ''Closed''\<rparr>) js
      else js)"

definition jobs_employer_GET ::
  "env \<Rightarrow> db \<Rightarrow> string option \<Rightarrow> (job \<times> nat) list response \<times> db" where
  "jobs_employer_GET env d cookie =
     (case cookie of
        None \<Rightarrow> (reply 401 ''Authentication required.'', d)
      | Some token \<Rightarrow>
          if token = [] then (reply 401 ''Authentication required.'', d)
          else (case verifyToken env token of
            None \<Rightarrow> (reply 401 ''Invalid or expired token.'', d)
          | Some decoded \<Rightarrow>
              if jwt_role decoded \<noteq> ''employer''
              then (reply 403 ''Access denied. Employer access only.'', d)
              else
                (let own = newest_first
                             (filter (\<lambda>j. job_employerId j = jwt_userId decoded) (jobs d))
                 in (reply_with 200 (map (employer_view env (applications d)) own),
                     d\<lparr>jobs := foldl (close_if_expired env) (jobs d) own\<rparr>))))"

definition jobs_id_GET :: "env \<Rightarrow> db \<Rightarrow> string \<Rightarrow> job response \<times> db" where
  "jobs_id_GET env d jobId =
     (case newObjectId env jobId of
        None \<Rightarrow> (reply 500 ''Internal server error while fetching job.'', d)
      | Some jobIdObjectId \<Rightarrow>
          (case findOne (\<lambda>j. job_id j = jobIdObjectId) (jobs d) of
             None \<Rightarrow> (reply 404 ''Job not found.'', d)
           | Some j \<Rightarrow> (reply_with 200 j, d)))"

section \<open>POST /api/auth/register\<close>

record register_request =
  rr_username :: "string option"
  rr_password :: "string option"
  rr_firstName :: "string option"
  rr_lastName :: "string option"
  rr_role :: "string option"
  rr_email :: "string option"

definition generateTokenExpiry :: "env \<Rightarrow> int \<Rightarrow> int" where
  "generateTokenExpiry env minutes = now env + minutes * 60000"

definition isTokenExpired :: "env \<Rightarrow> int option \<Rightarrow> bool" where
  "isTokenExpired env expiryDate =
     (case expiryDate of None \<Rightarrow> True | Some t \<Rightarrow> t < now env)"

definition user_valid :: "string \<Rightarrow> 'a user_scheme \<Rightarrow> bool" where
  \<comment> \<open>the \<open>required\<close> and \<open>enum\<close> validators both user schemas share\<close>
  "user_valid r u =
     (u_username u \<noteq> [] \<and> u_passwordHash u \<noteq> [] \<and> u_role u = r \<and>
      u_firstName u \<noteq> [] \<and> u_lastName u \<noteq> [])"

definition JobSeeker_create ::
  "env \<Rightarrow> jobseeker \<Rightarrow> jobseeker list \<Rightarrow> db_error + (jobseeker \<times> jobseeker list)" where
  \<comment> \<open>the unique indexes are \<open>_id\<close> and \<open>username\<close>\<close>
  "JobSeeker_create env u xs =
     (let doc = u\<lparr>u_username := lower_trim env (u_username u),
                   u_firstName := trim env (u_firstName u),
                   u_lastName := trim env (u_lastName u),
                   u_email := lower_trim env (u_email u),
                   u_emailVerificationToken := trim env (u_emailVerificationToken u)\<rparr>
      in if \<not> jobseeker_valid doc then Inl ValidationError
         else if \<exists>x \<in> set xs. u_id x = u_id doc \<or> u_username x = u_username doc
         then Inl DuplicateKey
         else Inr (doc, xs @ [doc]))"

definition Employer_create ::
  "env \<Rightarrow> user \<Rightarrow> user list \<Rightarrow> db_error + (user \<times> user list)" where
  \<comment> \<open>the employer schema does not trim the first and last name\<close>
  "Employer_create env u xs =
     (let doc = u\<lparr>u_username := lower_trim env (u_username u),
                   u_email := lower_trim env (u_email u),
                   u_emailVerificationToken := trim env (u_emailVerificationToken u)\<rparr>
      in if \<not> user_valid ''employer'' doc then Inl ValidationError
         else if \<exists>x \<in> set xs. u_id x = u_id doc \<or> u_username x = u_username doc
         then Inl DuplicateKey
         else Inr (doc, xs @ [doc]))"

definition new_user :: "env \<Rightarrow> register_request \<Rightarrow> user" where
  "new_user env req =
     \<lparr>u_id = freshObjectId env,
      u_username = toLowerCase env (or_empty (rr_username req)),
      u_passwordHash = hashPassword env (or_empty (rr_password req)),
      u_role = or_empty (rr_role req),
      u_isEmailVerified = False,
      u_emailVerificationToken = secureToken env,
      u_emailVerificationTokenExpiry = Some (generateTokenExpiry env 30),
      u_passwordResetToken = [],
      u_passwordResetTokenExpiry = None,
      u_firstName = or_empty (rr_firstName req),
      u_lastName = or_empty (rr_lastName req),
      u_email = trim env (toLowerCase env (or_empty (rr_email req)))\<rparr>"

definition register_failure :: "db_error \<Rightarrow> user response" where
  \<comment> \<open>the catch block: \<open>E11000\<close> in the message gives 409, \<open>validation\<close> gives 400\<close>
  "register_failure err =
     (case err of
        DuplicateKey \<Rightarrow> reply 409 ''User with this username or email already exists.''
      | ValidationError \<Rightarrow> reply 400 ''Invalid data provided. Please check all fields.'')"

definition auth_register_POST :: "env \<Rightarrow> db \<Rightarrow> register_request \<Rightarrow> user response \<times> db" where
  "auth_register_POST env d req =
     (if \<not> truthy (rr_username req) \<or> \<not> truthy (rr_password req) \<or>
         \<not> truthy (rr_firstName req) \<or> \<not> truthy (rr_lastName req) \<or> \<not> truthy (rr_role req)
      then (reply 400 ''Missing required fields.'', d)
      else if length (or_empty (rr_password req)) < 6
      then (reply 400 ''Password must be at least 6 characters long.'', d)
      else if \<not> truthy (rr_email req) \<or> \<not> str_includes (or_empty (rr_email req)) CHR ''@''
      then (reply 400 ''Valid email address is required.'', d)
      else if or_empty (rr_role req) \<noteq> ''job-seeker'' \<and> or_empty (rr_role req) \<noteq> ''employer''
      then (reply 400 ''Invalid role.'', d)
      else
        (let usernameLower = toLowerCase env (or_empty (rr_username req));
             emailLower = trim env (toLowerCase env (or_empty (rr_email req)))
         in if (\<exists>s \<in> set (jobseekers d). u_username s = lower_trim env usernameLower \<or>
                                          u_email s = lower_trim env emailLower) \<or>
               (\<exists>e \<in> set (employers d). u_username e = lower_trim env usernameLower \<or>
                                         u_email e = lower_trim env emailLower)
            then (reply 409 ''User with this username or email already exists.'', d)
            else if or_empty (rr_role req) = ''job-seeker''
            then (case JobSeeker_create env
                         (user.extend (new_user env req) \<lparr>appliedJobs = []\<rparr>)
                         (jobseekers d) of
                    Inl err \<Rightarrow> (register_failure err, d)
                  | Inr (newUser, stored) \<Rightarrow>
                      (reply_with 201 (user.truncate newUser), d\<lparr>jobseekers := stored\<rparr>))
            else (case Employer_create env (new_user env req) (employers d) of
                    Inl err \<Rightarrow> (register_failure err, d)
                  | Inr (newUser, stored) \<Rightarrow>
                      (reply_with 201 newUser, d\<lparr>employers := stored\<rparr>))))"

section \<open>POST /api/auth/login\<close>

record login_request =
  lr_username :: "string option"
  lr_password :: "string option"
  lr_role :: "string option"

definition login_user :: "env \<Rightarrow> db \<Rightarrow> string option \<Rightarrow> string \<Rightarrow> user option" where
  \<comment> \<open>\<open>findOne({ username: usernameLower })\<close> in the collection the role names, or in the
      job seekers and then the employers; the filter goes through the setters of the path\<close>
  "login_user env d role usernameLower =
     (if role = Some ''job-seeker''
      then map_option user.truncate
             (findOne (\<lambda>s. u_username s = lower_trim env usernameLower) (jobseekers d))
      else if role = Some ''employer''
      then findOne (\<lambda>e. u_username e = lower_trim env usernameLower) (employers d)
      else (case findOne (\<lambda>s. u_username s = lower_trim env usernameLower) (jobseekers d) of
              Some s \<Rightarrow> Some (user.truncate s)
            | None \<Rightarrow> findOne (\<lambda>e. u_username e = lower_trim env usernameLower) (employers d)))"

definition auth_login_POST :: "env \<Rightarrow> db \<Rightarrow> login_request \<Rightarrow> user response \<times> db" where
  "auth_login_POST env d req =
     (if \<not> truthy (lr_username req) \<or> \<not> truthy (lr_password req)
      then (reply 400 ''Username and password are required.'', d)
      else (case login_user env d (lr_role req) (toLowerCase env (or_empty (lr_username req))) of
              None \<Rightarrow> (reply 401 ''Invalid credentials.'', d)
            | Some u \<Rightarrow>
                if \<not> verifyPassword env (or_empty (lr_password req)) (u_passwordHash u)
                then (reply 401 ''Invalid credentials.'', d)
                else (\<lparr>status = 200, message = ''Login successful!'', payload = Some u,
                       auth_token = Some (createToken env
                         \<lparr>jwt_userId = u_id u, jwt_role = u_role u,
                          jwt_username = u_username u\<rparr>)\<rparr>, d)))"

section \<open>POST /api/auth/reset-password\<close>

record reset_request =
  rs_token :: "string option"
  rs_newPassword :: "string option"

definition reset_fields :: "env \<Rightarrow> string \<Rightarrow> 'a user_scheme \<Rightarrow> 'a user_scheme" where
  "reset_fields env newPassword u =
     u\<lparr>u_passwordHash := hashPassword env newPassword,
       u_passwordResetToken := [],
       u_passwordResetTokenExpiry := None\<rparr>"

definition Employer_save :: "user \<Rightarrow> user list \<Rightarrow> db_error + user list" where
  "Employer_save u xs =
     (if user_valid ''employer'' u then Inr (updateOne (\<lambda>x. u_id x = u_id u) (\<lambda>x. u) xs)
      else Inl ValidationError)"

definition reset_found ::
  "env \<Rightarrow> db \<Rightarrow> string \<Rightarrow> 'a user_scheme \<Rightarrow> (db_error + db) \<Rightarrow> unit response \<times> db" where
  \<comment> \<open>steps 3 to 6 of the handler, for the user the token belongs to\<close>
  "reset_found env d newPassword u saved =
     (if isTokenExpired env (u_passwordResetTokenExpiry u)
      then (reply 400 ''Reset token has expired. Please request a new one.'', d)
      else if \<not> u_isEmailVerified u
      then (reply 403 ''Please verify your email first.'', d)
      else (case saved of
              Inl err \<Rightarrow> (reply 500 ''An error occurred during password reset.'', d)
            | Inr d' \<Rightarrow>
                (reply 200 ''Password reset successfully! You can now log in with your new password.'', d')))"

definition auth_reset_password_POST :: "env \<Rightarrow> db \<Rightarrow> reset_request \<Rightarrow> unit response \<times> db" where
  "auth_reset_password_POST env d req =
     (if \<not> truthy (rs_token req) \<or> \<not> truthy (rs_newPassword req)
      then (reply 400 ''Token and new password are required.'', d)
      else if length (or_empty (rs_newPassword req)) < 6
      then (reply 400 ''Password must be at least 6 characters long.'', d)
      else (case findOne (\<lambda>s. u_passwordResetToken s = trim env (or_empty (rs_token req)))
                  (jobseekers d) of
              Some s \<Rightarrow>
                reset_found env d (or_empty (rs_newPassword req)) s
                  (map_sum id (\<lambda>xs. d\<lparr>jobseekers := xs\<rparr>)
                     (JobSeeker_save (reset_fields env (or_empty (rs_newPassword req)) s)
                        (jobseekers d)))
            | None \<Rightarrow>
                (case findOne (\<lambda>e. u_passwordResetToken e = trim env (or_empty (rs_token req)))
                        (employers d) of
                   Some e \<Rightarrow>
                     reset_found env d (or_empty (rs_newPassword req)) e
                       (map_sum id (\<lambda>xs. d\<lparr>employers := xs\<rparr>)
                          (Employer_save (reset_fields env (or_empty (rs_newPassword req)) e)
                             (employers d)))
                 | None \<Rightarrow> (reply 400 ''Invalid or expired reset token.'', d))))"

section \<open>Invariants of the database\<close>

definition rating_in_range :: "rat option \<Rightarrow> bool" where
  \<comment> \<open>the stored rating is a number from 0 to 5\<close>
  "rating_in_range n = (case n of None \<Rightarrow> False | Some r \<Rightarrow> 0 \<le> r \<and> r \<le> 5)"

definition ratings_in_range :: "db \<Rightarrow> bool" where
  \<comment> \<open>every stored rating, of an application or of an \<open>appliedJobs\<close> entry, is within 0..5\<close>
  "ratings_in_range d =
     (list_all (\<lambda>a. rating_in_range (app_rating a)) (applications d) \<and>
      list_all (\<lambda>s. list_all (\<lambda>e. rating_in_range (aj_rating e)) (appliedJobs s))
        (jobseekers d))"

definition app_fact :: "application \<Rightarrow> objid \<times> objid \<times> string \<times> rat option" where
  \<comment> \<open>what the collection records about an application: its id, job, status and rating\<close>
  "app_fact a = (app_id a, app_jobId a, app_status a, app_rating a)"

definition entry_fact :: "applied_job \<Rightarrow> objid \<times> objid \<times> string \<times> rat option" where
  \<comment> \<open>the same four values as an \<open>appliedJobs\<close> entry mirrors them\<close>
  "entry_fact e = (aj_applicationId e, aj_jobId e, aj_status e, aj_rating e)"

definition dual_write_consistent :: "db \<Rightarrow> bool" where
  \<comment> \<open>ids are unique in their collection, every application has its job seeker, and each
      job seeker's \<open>appliedJobs\<close> lists, entry for record, exactly the applications of the
      collection that the job seeker owns, with the same id, job, status and rating\<close>
  "dual_write_consistent d =
     (distinct (map app_id (applications d)) \<and>
      distinct (map u_id (jobseekers d)) \<and>
      (\<forall>a \<in> set (applications d). \<exists>s \<in> set (jobseekers d). u_id s = app_jobSeekerId a) \<and>
      (\<forall>s \<in> set (jobseekers d).
         mset (map entry_fact (appliedJobs s)) =
         mset (map app_fact (filter (\<lambda>a. app_jobSeekerId a = u_id s) (applications d)))))"

definition job_valid :: "env \<Rightarrow> job \<Rightarrow> bool" where
  \<comment> \<open>the \<open>required\<close> strings of the job schema that an \<open>appliedJobs\<close> entry copies\<close>
  "job_valid env j =
     (trim env (job_title j) \<noteq> [] \<and> trim env (job_company j) \<noteq> [] \<and>
      trim env (job_location j) \<noteq> [])"

definition schema_valid :: "env \<Rightarrow> db \<Rightarrow> bool" where
  \<comment> \<open>the stored job seekers and jobs pass their schemas' validators, as every document
      written through \<open>create\<close> or \<open>save\<close> does\<close>
  "schema_valid env d =
     ((\<forall>s \<in> set (jobseekers d). jobseeker_valid s) \<and> (\<forall>j \<in> set (jobs d). job_valid env j))"

definition unique_applications :: "db \<Rightarrow> bool" where
  \<comment> \<open>no two applications of the collection share job and job seeker\<close>
  "unique_applications d =
     distinct (map (\<lambda>a. (app_jobId a, app_jobSeekerId a)) (applications d))"

definition already_applied :: "db \<Rightarrow> objid \<Rightarrow> objid \<Rightarrow> bool" where
  \<comment> \<open>an application of this job seeker for this job exists, in the collection or as an
      entry of the job seeker's \<open>appliedJobs\<close>\<close>
  "already_applied d jobSeekerId jobId =
     ((\<exists>a \<in> set (applications d). app_jobId a = jobId \<and> app_jobSeekerId a = jobSeekerId) \<or>
      (case findOne (\<lambda>s. u_id s = jobSeekerId) (jobseekers d) of
         None \<Rightarrow> False
       | Some s \<Rightarrow> \<exists>e \<in> set (appliedJobs s). aj_jobId e = jobId))"

definition without_job :: "objid \<Rightarrow> jobseeker \<Rightarrow> jobseeker" where
  \<comment> \<open>a job seeker with the \<open>appliedJobs\<close> entries of one job taken out\<close>
  "without_job jobId s =
     s\<lparr>appliedJobs := filter (\<lambda>e. aj_jobId e \<noteq> jobId) (appliedJobs s)\<rparr>"

definition applicants_of :: "db \<Rightarrow> objid \<Rightarrow> objid set" where
  \<comment> \<open>the job seekers with an application for the job in the collection\<close>
  "applicants_of d jobId =
     set (map app_jobSeekerId (filter (\<lambda>a. app_jobId a = jobId) (applications d)))"

definition patched_fact ::
  "rat option update_doc \<Rightarrow> objid \<Rightarrow> objid \<times> objid \<times> string \<times> rat option \<Rightarrow>
   objid \<times> objid \<times> string \<times> rat option" where
  \<comment> \<open>what a \<open>$set\<close> of this status and rating makes of the four values of one application\<close>
  "patched_fact u aid t =
     (if fst t = aid
      then (fst t, fst (snd t),
            (case ud_status u of None \<Rightarrow> fst (snd (snd t)) | Some s \<Rightarrow> s),
            (case ud_rating u of None \<Rightarrow> snd (snd (snd t)) | Some n \<Rightarrow> n))
      else t)"

definition mirror_write :: "rat option update_doc \<Rightarrow> objid \<Rightarrow> objid \<Rightarrow> db \<Rightarrow> db" where
  \<comment> \<open>the database after the second write of the PATCH, for the \<open>$set\<close> object as cast\<close>
  "mirror_write u jobSeekerId applicationId d =
     (if ud_status u = None \<and> ud_rating u = None then d
      else d\<lparr>jobseekers :=
             updateOne
               (\<lambda>s. u_id s = jobSeekerId \<and>
                    (\<exists>e \<in> set (appliedJobs s). aj_applicationId e = applicationId))
               (\<lambda>s. s\<lparr>appliedJobs :=
                    updateOne (\<lambda>e. aj_applicationId e = applicationId)
                      (set_appliedJob u) (appliedJobs s)\<rparr>)
               (jobseekers d)\<rparr>)"

definition update_valid :: "rat option update_doc \<Rightarrow> bool" where
  \<comment> \<open>the values of the \<open>$set\<close> object would pass the validators of their paths\<close>
  "update_valid u =
     ((case ud_status u of None \<Rightarrow> True | Some s \<Rightarrow> s \<in> set application_statuses) \<and>
      (case ud_rating u of None \<Rightarrow> True | Some n \<Rightarrow> rating_valid n))"


definition close_job :: "job \<Rightarrow> job" where
  \<comment> \<open>the update \<open>{ status: 'Closed' }\<close>\<close>
  "close_job j = j\<lparr>job_status := ''Closed''\<rparr>"

definition expired_on_server :: "env \<Rightarrow> job \<Rightarrow> bool" where
  \<comment> \<open>the filter of the public list's \<open>updateMany\<close>: active, with a deadline that the
      server parses to a moment before now\<close>
  "expired_on_server env j =
     (job_status j = ''Active'' \<and> truthy (job_deadline j) \<and>
      (case mongoDate env (or_empty (job_deadline j)) of None \<Rightarrow> False | Some t \<Rightarrow> t < now env))"

definition deadlines_parse :: "env \<Rightarrow> job list \<Rightarrow> bool" where
  \<comment> \<open>the server can parse the deadline of every active job that has one, so that the
      \<open>updateMany\<close> does not fail\<close>
  "deadlines_parse env js =
     (\<forall>j \<in> set js. job_status j = ''Active'' \<and> truthy (job_deadline j) \<longrightarrow>
        mongoDate env (or_empty (job_deadline j)) \<noteq> None)"

definition registration_valid :: "register_request \<Rightarrow> bool" where
  \<comment> \<open>the request passes the four validation steps of the registration handler\<close>
  "registration_valid req =
     (truthy (rr_username req) \<and> truthy (rr_password req) \<and> truthy (rr_firstName req) \<and>
      truthy (rr_lastName req) \<and> truthy (rr_role req) \<and>
      6 \<le> length (or_empty (rr_password req)) \<and>
      truthy (rr_email req) \<and> str_includes (or_empty (rr_email req)) CHR ''@'' \<and>
      (or_empty (rr_role req) = ''job-seeker'' \<or> or_empty (rr_role req) = ''employer''))"

definition usernames_as_stored :: "env \<Rightarrow> db \<Rightarrow> bool" where
  \<comment> \<open>the stored user names are in lower case and trimmed, as the setters of the path
      write them\<close>
  "usernames_as_stored env d =
     ((\<forall>s \<in> set (jobseekers d).
         toLowerCase env (u_username s) = u_username s \<and> trim env (u_username s) = u_username s) \<and>
      (\<forall>e \<in> set (employers d).
         toLowerCase env (u_username e) = u_username e \<and> trim env (u_username e) = u_username e))"

definition username_taken :: "env \<Rightarrow> db \<Rightarrow> string \<Rightarrow> bool" where
  \<comment> \<open>the name is, up to the case of its letters, the user name of a job seeker or employer\<close>
  "username_taken env d name =
     ((\<exists>s \<in> set (jobseekers d). toLowerCase env (u_username s) = toLowerCase env name) \<or>
      (\<exists>e \<in> set (employers d). toLowerCase env (u_username e) = toLowerCase env name))"

definition reset_user :: "env \<Rightarrow> db \<Rightarrow> string \<Rightarrow> user option" where
  \<comment> \<open>the user that \<open>findOne({ passwordResetToken: token })\<close> finds: a job seeker, or else
      an employer, whose stored token is the trimmed token of the request\<close>
  "reset_user env d token =
     (case findOne (\<lambda>s. u_passwordResetToken s = trim env token) (jobseekers d) of
        Some s \<Rightarrow> Some (user.truncate s)
      | None \<Rightarrow> findOne (\<lambda>e. u_passwordResetToken e = trim env token) (employers d))"
section \<open>A sample deployment\<close>

text \<open>
  One concrete environment and database, on which the theorems below are instantiated:
  the job seekers Ann and Bob, the employers Acme and Globex, two jobs of Acme (the second
  with a deadline in January 2024, the clock standing at 1 June 2024) and Ann's pending
  application for the first job. The environment's \<open>toLowerCase\<close> and \<open>trim\<close> are the
  runtime's functions on ASCII text: letters A to Z have a lower case, and tab, line
  feed, vertical tab, form feed, carriage return and space are white space.
\<close>

definition ascii_lower :: "char \<Rightarrow> char" where
  \<comment> \<open>the lower case of an ASCII letter; any other character as it is\<close>
  "ascii_lower c =
     (case map_of (zip ''ABCDEFGHIJKLMNOPQRSTUVWXYZ'' ''abcdefghijklmnopqrstuvwxyz'') c of
        None \<Rightarrow> c
      | Some l \<Rightarrow> l)"

definition ascii_space :: "char \<Rightarrow> bool" where
  "ascii_space c = ((of_char c :: nat) \<in> {9, 10, 11, 12, 13, 32})"

definition ascii_trim :: "string \<Rightarrow> string" where
  "ascii_trim s = rev (dropWhile ascii_space (rev (dropWhile ascii_space s)))"

definition sample_env :: env where
  "sample_env =
     \<lparr>verifyToken = map_of
        [(''token-ann'', \<lparr>jwt_userId = 1, jwt_role = ''job-seeker'', jwt_username = ''ann''\<rparr>),
         (''token-bob'', \<lparr>jwt_userId = 2, jwt_role = ''job-seeker'', jwt_username = ''bob''\<rparr>),
         (''token-acme'', \<lparr>jwt_userId = 10, jwt_role = ''employer'', jwt_username = ''acme''\<rparr>),
         (''token-globex'', \<lparr>jwt_userId = 11, jwt_role = ''employer'', jwt_username = ''globex''\<rparr>)],
      createToken = (\<lambda>p. ''jwt.'' @ jwt_username p),
      verifyPassword = (\<lambda>p h. h = ''bcrypt.'' @ p),
      hashPassword = (\<lambda>p. ''bcrypt.'' @ p),
      isValidObjectId = (\<lambda>s. length s = 24),
      newObjectId = map_of
        [(''000000000000000000000100'', 100), (''000000000000000000000101'', 101),
         (''000000000000000000000200'', 200)],
      freshObjectId = 300,
      jsDate = map_of [(''2024-01-31'', 1706659200000)],
      mongoDate = map_of [(''2024-01-31'', 1706659200000)],
      isoDay = (\<lambda>t. ''2024-06-01''),
      now = 1717200000000,
      secureToken = ''5f2a9c'',
      toLowerCase = map ascii_lower,
      trim = ascii_trim,
      stringToNumber = map_of [([], 0), (''0'', 0), (''3'', 3), (''4.5'', 9 / 2), (''7'', 7)],
      toPrimitive = map_of [(JArr [], []), (JArr [JNum 3], ''3'')]\<rparr>"

definition ann :: jobseeker where
  "ann =
     \<lparr>u_id = 1, u_username = ''ann'', u_passwordHash = ''bcrypt.secret1'',
      u_role = ''job-seeker'', u_isEmailVerified = False,
      u_emailVerificationToken = ''77aa'', u_emailVerificationTokenExpiry = Some 1717000000000,
      u_passwordResetToken = ''r-ann'', u_passwordResetTokenExpiry = Some 1717300000000,
      u_firstName = ''Ann'', u_lastName = ''Lee'', u_email = ''ann@example.com'',
      appliedJobs =
        [\<lparr>aj_jobId = 100, aj_applicationId = 200, aj_jobTitle = ''Engineer'',
          aj_company = ''Acme'', aj_location = ''Pune'', aj_status = ''Pending'',
          aj_appliedDate = 1716000000000, aj_coverLetter = [], aj_resume = [],
          aj_rating = Some 0\<rparr>]\<rparr>"

definition bob :: jobseeker where
  "bob =
     \<lparr>u_id = 2, u_username = ''bob'', u_passwordHash = ''bcrypt.secret2'',
      u_role = ''job-seeker'', u_isEmailVerified = True,
      u_emailVerificationToken = [], u_emailVerificationTokenExpiry = None,
      u_passwordResetToken = [], u_passwordResetTokenExpiry = None,
      u_firstName = ''Bob'', u_lastName = ''Ray'', u_email = ''bob@example.com'',
      appliedJobs = []\<rparr>"

definition acme :: user where
  "acme =
     \<lparr>u_id = 10, u_username = ''acme'', u_passwordHash = ''bcrypt.hunter22'',
      u_role = ''employer'', u_isEmailVerified = False,
      u_emailVerificationToken = ''88bb'', u_emailVerificationTokenExpiry = Some 1717000000000,
      u_passwordResetToken = [], u_passwordResetTokenExpiry = None,
      u_firstName = ''Ada'', u_lastName = ''Cole'', u_email = ''hr@acme.example''\<rparr>"

definition globex :: user where
  "globex =
     \<lparr>u_id = 11, u_username = ''globex'', u_passwordHash = ''bcrypt.hunter33'',
      u_role = ''employer'', u_isEmailVerified = True,
      u_emailVerificationToken = [], u_emailVerificationTokenExpiry = None,
      u_passwordResetToken = [], u_passwordResetTokenExpiry = None,
      u_firstName = ''Gus'', u_lastName = ''Hale'', u_email = ''hr@globex.example''\<rparr>"

definition engineer_job :: job where
  "engineer_job =
     \<lparr>job_id = 100, job_employerId = 10, job_title = ''Engineer'', job_company = ''Acme'',
      job_location = ''Pune'', job_deadline = None, job_status = ''Active'',
      job_applicants = 1, job_postedDate = 1715000000000\<rparr>"

definition analyst_job :: job where
  "analyst_job =
     \<lparr>job_id = 101, job_employerId = 10, job_title = ''Analyst'', job_company = ''Acme'',
      job_location = ''Pune'', job_deadline = Some ''2024-01-31'', job_status = ''Active'',
      job_applicants = 0, job_postedDate = 1704000000000\<rparr>"

definition ann_application :: application where
  "ann_application =
     \<lparr>app_id = 200, app_jobId = 100, app_jobSeekerId = 1, app_applicantName = ''Ann Lee'',
      app_applicantEmail = ''ann@example.com'', app_status = ''Pending'', app_resume = [],
      app_coverLetter = [], app_rating = Some 0, app_appliedDate = 1716000000000\<rparr>"

definition sample_db :: db where
  "sample_db =
     \<lparr>jobseekers = [ann, bob], employers = [acme, globex],
      jobs = [engineer_job, analyst_job], applications = [ann_application]\<rparr>"

definition globex_patch :: patch_request where
  "globex_patch =
     \<lparr>pr_cookie = Some ''token-globex'', pr_applicationId = ''000000000000000000000200'',
      pr_status = Some (JStr ''Selected''), pr_rating = Some (JNum 4)\<rparr>"

definition acme_patch :: patch_request where
  "acme_patch =
     \<lparr>pr_cookie = Some ''token-acme'', pr_applicationId = ''000000000000000000000200'',
      pr_status = Some (JStr ''Selected''), pr_rating = Some (JNum 4)\<rparr>"

definition acme_patch_null :: patch_request where
  \<comment> \<open>the body \<open>{"rating": null}\<close>\<close>
  "acme_patch_null = acme_patch\<lparr>pr_status := None, pr_rating := Some JNull\<rparr>"

definition bob_apply :: apply_request where
  "bob_apply =
     \<lparr>ar_cookie = Some ''token-bob'', ar_jobId = Some ''000000000000000000000100'',
      ar_coverLetter = Some '' Hello '', ar_resume = None\<rparr>"

definition ann_apply :: apply_request where
  "ann_apply =
     \<lparr>ar_cookie = Some ''token-ann'', ar_jobId = Some ''000000000000000000000100'',
      ar_coverLetter = None, ar_resume = None\<rparr>"

definition ann_withdraw :: delete_request where
  "ann_withdraw = \<lparr>dr_cookie = Some ''token-ann'', dr_id = ''000000000000000000000200''\<rparr>"

definition acme_delete_job :: delete_request where
  "acme_delete_job = \<lparr>dr_cookie = Some ''token-acme'', dr_id = ''000000000000000000000100''\<rparr>"

definition ann_again :: register_request where
  \<comment> \<open>a complete registration under a user name that is taken, in other letter case\<close>
  "ann_again =
     \<lparr>rr_username = Some ''Ann'', rr_password = Some ''secret9'', rr_firstName = Some ''Anna'',
      rr_lastName = Some ''Lind'', rr_role = Some ''employer'',
      rr_email = Some ''anna@example.com''\<rparr>"

definition ann_again_short :: register_request where
  \<comment> \<open>the same registration with a password of three characters\<close>
  "ann_again_short = ann_again\<lparr>rr_password := Some ''abc''\<rparr>"

definition ann_login :: login_request where
  "ann_login = \<lparr>lr_username = Some ''Ann'', lr_password = Some ''secret1'', lr_role = None\<rparr>"

definition ann_login_padded :: login_request where
  \<comment> \<open>the user name with a space before and after it\<close>
  "ann_login_padded = ann_login\<lparr>lr_username := Some '' Ann ''\<rparr>"

definition ann_login_wrong :: login_request where
  \<comment> \<open>the padded user name with a password that is not Ann's\<close>
  "ann_login_wrong = ann_login\<lparr>lr_username := Some '' Ann '', lr_password := Some ''guess''\<rparr>"

definition ann_login_empty :: login_request where
  "ann_login_empty = ann_login\<lparr>lr_password := Some []\<rparr>"

definition ann_login_as_employer :: login_request where
  "ann_login_as_employer = ann_login\<lparr>lr_role := Some ''employer''\<rparr>"

definition ann_reset :: reset_request where
  \<comment> \<open>Ann's reset token with a space after it\<close>
  "ann_reset = \<lparr>rs_token = Some ''r-ann '', rs_newPassword = Some ''secret7''\<rparr>"

definition carl_register :: register_request where
  \<comment> \<open>a complete registration under a new user name and e-mail address\<close>
  "carl_register =
     \<lparr>rr_username = Some ''carl'', rr_password = Some ''secret5'', rr_firstName = Some ''Carl'',
      rr_lastName = Some ''Berg'', rr_role = Some ''employer'',
      rr_email = Some ''carl@example.com''\<rparr>"

lemmas sample_defs = sample_env_def sample_db_def ann_def bob_def acme_def globex_def
  engineer_job_def analyst_job_def ann_application_def

section \<open>Collections: basic facts\<close>

lemma findOne_Some_iff:
  "findOne P xs = Some x \<Longrightarrow> x \<in> set xs \<and> P x"
  by (auto simp: findOne_def find_Some_iff)

lemma findOne_None_iff: "findOne P xs = None \<longleftrightarrow> (\<forall>x \<in> set xs. \<not> P x)"
  by (auto simp: findOne_def find_None_iff)

lemma findOne_updateOne_same:
  "findOne P xs = Some x \<Longrightarrow> (\<And>y. P y \<Longrightarrow> P (f y)) \<Longrightarrow>
   findOne P (updateOne P f xs) = Some (f x)"
  by (induction xs) (auto simp: findOne_def)

lemma set_application_simps [simp]:
  "app_id (set_application u a) = app_id a"
  "app_jobSeekerId (set_application u a) = app_jobSeekerId a"
  "app_jobId (set_application u a) = app_jobId a"
  by (simp_all add: set_application_def Let_def split: option.splits)

lemma mirror_write_simps [simp]:
  "applications (mirror_write u sid aid d) = applications d"
  "jobs (mirror_write u sid aid d) = jobs d"
  by (simp_all add: mirror_write_def)

lemma updateAppliedJobs_eq: "updateAppliedJobs env req = updateFields env req"
  by (simp add: updateAppliedJobs_def updateFields_def)

lemma cast_update_Returns:
  assumes "cast_update env w = Returns u"
  shows "ud_status u = ud_status w" and "(ud_rating u = None) = (ud_rating w = None)"
  using assms by (auto simp: cast_update_def split: option.splits outcome.splits)

lemma update_appliedJobs_entry_Returns:
  assumes "cast_update env (updateFields env req) = Returns u"
  shows "update_appliedJobs_entry env req sid aid d = Returns (mirror_write u sid aid d)"
  using assms cast_update_Returns [OF assms]
  by (simp add: update_appliedJobs_entry_def updateAppliedJobs_eq mirror_write_def)

lemma accepted_rating_cast:
  assumes "rating_accepted env (Some v)" and "castNumber env v = Returns n"
  shows "rating_valid n"
  using assms
  by (cases v)
     (auto simp: rating_accepted_def toNumber_def castNumber_def rating_valid_def
        split: option.splits outcome.splits if_splits)

lemma cast_update_valid:
  assumes "cast_update env (updateFields env req) = Returns u"
  shows "update_valid u"
proof -
  have st: "case ud_status (updateFields env req) of None \<Rightarrow> True
            | Some s \<Rightarrow> s \<in> set application_statuses"
    by (simp add: updateFields_def status_accepted_def split: option.split json.split)
  have rt: "case ud_rating u of None \<Rightarrow> True | Some n \<Rightarrow> rating_valid n"
  proof (cases "ud_rating u")
    case None
    then show ?thesis by simp
  next
    case (Some n)
    with assms obtain v where v: "ud_rating (updateFields env req) = Some v"
      "castNumber env v = Returns n"
      by (auto simp: cast_update_def split: option.splits outcome.splits)
    from v(1) have "rating_accepted env (Some v)"
      by (auto simp: updateFields_def split: if_splits)
    from accepted_rating_cast [OF this v(2)] Some show ?thesis by simp
  qed
  from st rt cast_update_Returns(1) [OF assms] show ?thesis
    by (simp add: update_valid_def)
qed




lemma updateOne_map:
  "length (filter P xs) \<le> 1 \<Longrightarrow> updateOne P f xs = map (\<lambda>x. if P x then f x else x) xs"
proof (induction xs)
  case Nil
  then show ?case by simp
next
  case (Cons x xs)
  show ?case
  proof (cases "P x")
    case True
    with Cons.prems have "filter P xs = []" by simp
    then have "\<forall>y \<in> set xs. \<not> P y" by (simp add: filter_empty_conv)
    then have "map (\<lambda>x. if P x then f x else x) xs = xs" by (simp add: map_idI)
    with True show ?thesis by simp
  next
    case False
    with Cons show ?thesis by simp
  qed
qed

lemma deleteOne_filter:
  "length (filter P xs) \<le> 1 \<Longrightarrow> deleteOne P xs = filter (\<lambda>x. \<not> P x) xs"
proof (induction xs)
  case Nil
  then show ?case by simp
next
  case (Cons x xs)
  show ?case
  proof (cases "P x")
    case True
    with Cons.prems have "filter P xs = []" by simp
    then have "\<forall>y \<in> set xs. \<not> P y" by (simp add: filter_empty_conv)
    then have "filter (\<lambda>x. \<not> P x) xs = xs" by simp
    with True show ?thesis by simp
  next
    case False
    with Cons show ?thesis by simp
  qed
qed

lemma distinct_filter_le1:
  "distinct (map k xs) \<Longrightarrow> length (filter (\<lambda>x. k x = i) xs) \<le> 1"
proof (induction xs)
  case Nil
  then show ?case by simp
next
  case (Cons x xs)
  show ?case
  proof (cases "k x = i")
    case True
    from Cons.prems have "k x \<notin> k ` set xs" by simp
    then have "\<forall>y \<in> set xs. k y \<noteq> k x" by (metis imageI)
    with True have "\<forall>y \<in> set xs. k y \<noteq> i" by simp
    then have "filter (\<lambda>x. k x = i) xs = []" by (simp add: filter_empty_conv)
    with True show ?thesis by simp
  next
    case False
    with Cons show ?thesis by simp
  qed
qed

lemma filter_conj_le1:
  "length (filter P xs) \<le> 1 \<Longrightarrow> length (filter (\<lambda>x. P x \<and> Q x) xs) \<le> 1"
proof -
  have "length (filter (\<lambda>x. P x \<and> Q x) xs) \<le> length (filter P xs)"
    by (induction xs) auto
  then show "length (filter P xs) \<le> 1 \<Longrightarrow> ?thesis" by simp
qed

lemma applications_POST_outcome:
  fixes env d req
  defines "r \<equiv> applications_POST env d req"
  shows "(snd r = d \<and> status (fst r) \<in> {400, 401, 403} \<and> payload (fst r) = None) \<or>
     (\<exists>token decoded jobId jid.
        ar_cookie req = Some token \<and> verifyToken env token = Some decoded \<and>
        jwt_role decoded = ''job-seeker'' \<and> ar_jobId req = Some jobId \<and>
        newObjectId env jobId = Some jid \<and>
        r = apply_to_job env d req (jwt_userId decoded) jid)"
  unfolding r_def applications_POST_def
  by (simp add: reply_def truthy_def or_empty_def split: option.split)

lemma applications_id_PATCH_outcome:
  fixes env d req
  defines "r \<equiv> applications_id_PATCH env d req"
  shows "(snd r = d \<and> status (fst r) \<in> {401, 403, 404, 500} \<and> payload (fst r) = None) \<or>
     (\<exists>token decoded aid a j u.
        pr_cookie req = Some token \<and> token \<noteq> [] \<and> verifyToken env token = Some decoded \<and>
        jwt_role decoded = ''employer'' \<and> newObjectId env (pr_applicationId req) = Some aid \<and>
        findOne (\<lambda>a. app_id a = aid) (applications d) = Some a \<and>
        findOne (\<lambda>j. job_id j = app_jobId a) (jobs d) = Some j \<and>
        job_employerId j = jwt_userId decoded \<and>
        cast_update env (updateFields env req) = Returns u \<and>
        fst r = reply_with 200 (set_application u a) \<and>
        snd r = mirror_write u (app_jobSeekerId a) aid
                  (d\<lparr>applications := updateOne (\<lambda>a. app_id a = aid)
                     (set_application u) (applications d)\<rparr>))"
proof -
  have upd: "findOne (\<lambda>x. app_id x = aid) (updateOne (\<lambda>x. app_id x = aid) f (applications d)) = Some (f a)"
    if "findOne (\<lambda>a. app_id a = aid) (applications d) = Some a" "\<And>y. app_id (f y) = app_id y" for aid a f
    using that(1) by (rule findOne_updateOne_same) (simp add: that(2))
  show ?thesis
    unfolding r_def applications_id_PATCH_def
    by (simp add: reply_def reply_with_def Let_def upd update_appliedJobs_entry_Returns
        split: option.split outcome.split)
qed

lemma apply_to_job_outcome:
  fixes env d req sid jid
  defines "r \<equiv> apply_to_job env d req sid jid"
  shows "(snd r = d \<and> status (fst r) \<in> {400, 404, 500} \<and> payload (fst r) = None) \<or>
     (status (fst r) = 400 \<and> payload (fst r) = None \<and>
      snd r = d\<lparr>jobs := updateOne (\<lambda>x. job_id x = jid) (\<lambda>x. x\<lparr>job_status := ''Closed''\<rparr>) (jobs d)\<rparr>) \<or>
     (\<exists>j s a stored.
        findOne (\<lambda>j. job_id j = jid) (jobs d) = Some j \<and> job_status j = ''Active'' \<and>
        \<not> deadline_passed env j \<and>
        findOne (\<lambda>a. app_jobId a = jid \<and> app_jobSeekerId a = sid) (applications d) = None \<and>
        findOne (\<lambda>s. u_id s = sid) (jobseekers d) = Some s \<and>
        u_firstName s \<noteq> [] \<and> u_lastName s \<noteq> [] \<and>
        (\<forall>e \<in> set (appliedJobs s). aj_jobId e \<noteq> jid) \<and>
        Application_create env (applicationData env jid sid s req) (applications d) = Inr (a, stored) \<and>
        fst r = reply_with 201 a \<and>
        snd r = store_appliedJob sid jid (appliedJobData env jid j a req)
                  (d\<lparr>applications := stored,
                     jobs := updateOne (\<lambda>x. job_id x = jid)
                       (\<lambda>x. x\<lparr>job_applicants := job_applicants x + 1\<rparr>) (jobs d)\<rparr>))"
  unfolding r_def apply_to_job_def
  by (simp add: reply_def reply_with_def Let_def split: option.split sum.split prod.split)

lemma store_appliedJob_outcome:
  "store_appliedJob sid jid e d = d \<or>
   (\<exists>s. findOne (\<lambda>s. u_id s = sid) (jobseekers d) = Some s \<and>
        (\<forall>x \<in> set (appliedJobs s). aj_jobId x \<noteq> jid) \<and>
        jobseeker_valid (s\<lparr>appliedJobs := appliedJobs s @ [e]\<rparr>) \<and>
        store_appliedJob sid jid e d =
          d\<lparr>jobseekers := updateOne (\<lambda>x. u_id x = sid)
               (\<lambda>x. s\<lparr>appliedJobs := appliedJobs s @ [e]\<rparr>) (jobseekers d)\<rparr>)"
proof (cases "findOne (\<lambda>s. u_id s = sid) (jobseekers d)")
  case None
  then show ?thesis by (simp add: store_appliedJob_def)
next
  case (Some s)
  then have "u_id s = sid" by (auto dest: findOne_Some_iff)
  with Some show ?thesis
    by (simp add: store_appliedJob_def JobSeeker_save_def split: sum.split)
qed

lemma my_applications_id_DELETE_outcome:
  fixes env d req
  defines "r \<equiv> my_applications_id_DELETE env d req"
  shows "(snd r = d \<and> status (fst r) \<in> {400, 401, 403, 404, 500} \<and> payload (fst r) = None) \<or>
     (\<exists>token decoded aid a saved.
        dr_cookie req = Some token \<and> token \<noteq> [] \<and> verifyToken env token = Some decoded \<and>
        jwt_role decoded = ''job-seeker'' \<and> newObjectId env (dr_id req) = Some aid \<and>
        findOne (\<lambda>a. app_id a = aid) (applications d) = Some a \<and>
        app_jobSeekerId a = jwt_userId decoded \<and>
        (case findOne (\<lambda>s. u_id s = jwt_userId decoded) (jobseekers d) of
           None \<Rightarrow> Inr (jobseekers d)
         | Some jobSeeker \<Rightarrow>
             JobSeeker_save (remove_appliedJob aid jobSeeker) (jobseekers d)) = Inr saved \<and>
        status (fst r) = 200 \<and>
        snd r = d\<lparr>jobseekers := saved,
                  applications := deleteOne (\<lambda>a. app_id a = aid) (applications d),
                  jobs := updateOne (\<lambda>x. job_id x = app_jobId a)
                    (\<lambda>x. x\<lparr>job_applicants := job_applicants x - 1\<rparr>) (jobs d)\<rparr>)"
  unfolding r_def my_applications_id_DELETE_def
  by (simp add: reply_def reply_with_def split: option.split sum.split)

lemma jobs_id_DELETE_outcome:
  fixes env d req
  defines "r \<equiv> jobs_id_DELETE env d req"
  shows "(snd r = d \<and> status (fst r) \<in> {401, 403, 404, 500}) \<or>
     (\<exists>token decoded jid j.
        dr_cookie req = Some token \<and> token \<noteq> [] \<and> verifyToken env token = Some decoded \<and>
        jwt_role decoded = ''employer'' \<and> newObjectId env (dr_id req) = Some jid \<and>
        findOne (\<lambda>j. job_id j = jid) (jobs d) = Some j \<and>
        job_employerId j = jwt_userId decoded \<and>
        status (fst r) = 200 \<and>
        snd r = d\<lparr>jobseekers := foldl (remove_job_entries jid) (jobseekers d)
                    (unique_ids (map app_jobSeekerId
                       (filter (\<lambda>a. app_jobId a = jid) (applications d)))),
                  applications := deleteMany (\<lambda>a. app_jobId a = jid) (applications d),
                  jobs := deleteOne (\<lambda>x. job_id x = jid) (jobs d)\<rparr>)"
  unfolding r_def jobs_id_DELETE_def
  by (simp add: reply_def Let_def split: option.split)

lemma Ball_updateOne:
  "(\<forall>x \<in> set xs. Q x) \<Longrightarrow> (\<forall>x \<in> set xs. P x \<longrightarrow> Q (f x)) \<Longrightarrow>
   \<forall>x \<in> set (updateOne P f xs). Q x"
  by (induction xs) auto

lemma set_deleteOne: "set (deleteOne P xs) \<subseteq> set xs"
  by (induction xs) auto

lemma Application_create_Inr:
  "Application_create env a xs = Inr (doc, ys) \<Longrightarrow>
   ys = xs @ [doc] \<and> app_rating doc = app_rating a \<and> app_id doc = app_id a \<and>
   app_jobId doc = app_jobId a \<and> app_jobSeekerId doc = app_jobSeekerId a \<and>
   app_status doc = app_status a \<and> application_valid doc \<and>
   (\<forall>b \<in> set xs. app_id b \<noteq> app_id a \<and>
       (app_jobId b, app_jobSeekerId b) \<noteq> (app_jobId a, app_jobSeekerId a))"
  by (auto simp: Application_create_def Let_def split: if_splits)

lemma JobSeeker_save_Inr:
  "JobSeeker_save s xs = Inr ys \<Longrightarrow>
   jobseeker_valid s \<and> ys = updateOne (\<lambda>x. u_id x = u_id s) (\<lambda>x. s) xs"
  by (auto simp: JobSeeker_save_def split: if_splits)

lemma remove_job_entries_outcome:
  "remove_job_entries jid xs i = xs \<or>
   (\<exists>s. findOne (\<lambda>s. u_id s = i) xs = Some s \<and>
        jobseeker_valid (s\<lparr>appliedJobs := filter (\<lambda>e. aj_jobId e \<noteq> jid) (appliedJobs s)\<rparr>) \<and>
        remove_job_entries jid xs i =
          updateOne (\<lambda>x. u_id x = i)
            (\<lambda>x. s\<lparr>appliedJobs := filter (\<lambda>e. aj_jobId e \<noteq> jid) (appliedJobs s)\<rparr>) xs)"
proof (cases "findOne (\<lambda>s. u_id s = i) xs")
  case None
  then show ?thesis by (simp add: remove_job_entries_def)
next
  case (Some s)
  then have "u_id s = i" by (auto dest: findOne_Some_iff)
  with Some show ?thesis
    by (simp add: remove_job_entries_def JobSeeker_save_def Let_def split: sum.split)
qed

lemma apply_to_job_already_applied:
  assumes "already_applied d sid jid"
  shows "status (fst (apply_to_job env d req sid jid)) \<in> {400, 404} \<and>
         applications (snd (apply_to_job env d req sid jid)) = applications d \<and>
         jobseekers (snd (apply_to_job env d req sid jid)) = jobseekers d"
proof (cases "findOne (\<lambda>a. app_jobId a = jid \<and> app_jobSeekerId a = sid) (applications d)")
  case (Some a)
  then show ?thesis
    by (simp add: apply_to_job_def reply_def split: option.split)
next
  case None
  then have "\<not> (\<exists>a \<in> set (applications d). app_jobId a = jid \<and> app_jobSeekerId a = sid)"
    by (simp add: findOne_None_iff)
  with assms obtain s where s: "findOne (\<lambda>s. u_id s = sid) (jobseekers d) = Some s"
    and e: "\<exists>e \<in> set (appliedJobs s). aj_jobId e = jid"
    by (auto simp: already_applied_def split: option.splits)
  with None show ?thesis
    by (simp add: apply_to_job_def reply_def split: option.split)
qed

lemma distinct_map_deleteOne:
  "distinct (map f xs) \<Longrightarrow> distinct (map f (deleteOne P xs))"
proof (induction xs)
  case Nil
  then show ?case by simp
next
  case (Cons x xs)
  have "set (deleteOne P xs) \<subseteq> set xs" by (rule set_deleteOne)
  with Cons show ?case by auto
qed

lemma map_pair_set_application:
  "map (\<lambda>a. (app_jobId a, app_jobSeekerId a)) (updateOne P (set_application u) xs) =
   map (\<lambda>a. (app_jobId a, app_jobSeekerId a)) xs"
  by (induction xs) auto

lemma applications_store_appliedJob [simp]:
  "applications (store_appliedJob sid jid x d) = applications d"
  by (simp add: store_appliedJob_def split: option.split sum.split)

lemma applications_POST_unique:
  assumes "unique_applications d"
  shows "unique_applications (snd (applications_POST env d req))"
proof -
  have "unique_applications (snd (apply_to_job env d req sid jid))" for sid jid
    using apply_to_job_outcome [of env d req sid jid]
  proof (elim disjE exE conjE)
    assume "snd (apply_to_job env d req sid jid) = d"
    with assms show ?thesis by simp
  next
    assume "snd (apply_to_job env d req sid jid) =
      d\<lparr>jobs := updateOne (\<lambda>x. job_id x = jid) (\<lambda>x. x\<lparr>job_status := ''Closed''\<rparr>) (jobs d)\<rparr>"
    with assms show ?thesis by (simp add: unique_applications_def)
  next
    fix j s a stored
    assume c: "Application_create env (applicationData env jid sid s req) (applications d) = Inr (a, stored)"
      and eq: "snd (apply_to_job env d req sid jid) =
        store_appliedJob sid jid (appliedJobData env jid j a req)
          (d\<lparr>applications := stored,
             jobs := updateOne (\<lambda>x. job_id x = jid)
               (\<lambda>x. x\<lparr>job_applicants := job_applicants x + 1\<rparr>) (jobs d)\<rparr>)"
    from Application_create_Inr [OF c] assms show ?thesis
      unfolding eq by (auto simp: unique_applications_def)
  qed
  with applications_POST_outcome [of env d req] assms show ?thesis by auto
qed

lemma applications_id_PATCH_unique:
  assumes "unique_applications d"
  shows "unique_applications (snd (applications_id_PATCH env d req))"
  using applications_id_PATCH_outcome [of env d req] assms
  by (auto simp: unique_applications_def map_pair_set_application)

lemma my_applications_id_DELETE_unique:
  assumes "unique_applications d"
  shows "unique_applications (snd (my_applications_id_DELETE env d req))"
  using my_applications_id_DELETE_outcome [of env d req] assms
  by (auto simp: unique_applications_def distinct_map_deleteOne)

lemma jobs_id_DELETE_unique:
  assumes "unique_applications d"
  shows "unique_applications (snd (jobs_id_DELETE env d req))"
  using jobs_id_DELETE_outcome [of env d req] assms
  by (auto simp: unique_applications_def deleteMany_def distinct_map_filter)

lemma distinct_map_eq:
  "distinct (map k xs) \<Longrightarrow> x \<in> set xs \<Longrightarrow> y \<in> set xs \<Longrightarrow> k x = k y \<Longrightarrow> x = y"
  by (auto simp: distinct_map dest: inj_onD)

lemma updateOne_by_id:
  "distinct (map k xs) \<Longrightarrow>
   updateOne (\<lambda>x. k x = i) f xs = map (\<lambda>x. if k x = i then f x else x) xs"
  by (rule updateOne_map) (rule distinct_filter_le1)

lemma deleteOne_by_id:
  "distinct (map k xs) \<Longrightarrow> deleteOne (\<lambda>x. k x = i) xs = filter (\<lambda>x. k x \<noteq> i) xs"
  by (rule deleteOne_filter) (rule distinct_filter_le1)

lemma without_job_simps [simp]:
  "u_id (without_job jid s) = u_id s"
  "appliedJobs (without_job jid s) = filter (\<lambda>e. aj_jobId e \<noteq> jid) (appliedJobs s)"
  "without_job jid (without_job jid s) = without_job jid s"
  by (simp_all add: without_job_def)

lemma jobseeker_valid_without_job:
  "jobseeker_valid s \<Longrightarrow> jobseeker_valid (without_job jid s)"
  by (simp add: jobseeker_valid_def without_job_def)

lemma remove_job_entries_map:
  assumes d: "distinct (map u_id xs)" and v: "\<forall>s \<in> set xs. jobseeker_valid s"
  shows "remove_job_entries jid xs i =
         map (\<lambda>s. if u_id s = i then without_job jid s else s) xs"
proof (cases "findOne (\<lambda>s. u_id s = i) xs")
  case None
  then have "\<forall>s \<in> set xs. u_id s \<noteq> i" by (simp add: findOne_None_iff)
  then have "map (\<lambda>s. if u_id s = i then without_job jid s else s) xs = xs"
    by (simp add: map_idI)
  with None show ?thesis by (simp add: remove_job_entries_def)
next
  case (Some s)
  then have s: "s \<in> set xs" "u_id s = i" by (auto dest: findOne_Some_iff)
  have same: "map (\<lambda>x. if u_id x = i then without_job jid x else x) xs =
              map (\<lambda>x. if u_id x = i then without_job jid s else x) xs"
    using distinct_map_eq [OF d _ s(1)] s(2) by (intro map_cong) auto
  show ?thesis
  proof (cases "length (filter (\<lambda>e. aj_jobId e \<noteq> jid) (appliedJobs s)) = length (appliedJobs s)")
    case True
    then have "filter (\<lambda>e. aj_jobId e \<noteq> jid) (appliedJobs s) = appliedJobs s"
      by (metis filter_True length_filter_less less_irrefl)
    then have "without_job jid s = s" by (simp add: without_job_def)
    then have "map (\<lambda>x. if u_id x = i then without_job jid s else x) xs = xs"
      using distinct_map_eq [OF d _ s(1)] s(2) by (intro map_idI) auto
    with Some True same show ?thesis by (simp add: remove_job_entries_def Let_def)
  next
    case False
    from v s(1) have "jobseeker_valid (without_job jid s)"
      by (simp add: jobseeker_valid_without_job)
    with Some False s(2) same show ?thesis
      by (simp add: remove_job_entries_def Let_def JobSeeker_save_def updateOne_by_id [OF d]
          without_job_def)
  qed
qed

lemma foldl_remove_job_entries_map:
  "distinct (map u_id xs) \<Longrightarrow> \<forall>s \<in> set xs. jobseeker_valid s \<Longrightarrow>
   foldl (remove_job_entries jid) xs ids =
   map (\<lambda>s. if u_id s \<in> set ids then without_job jid s else s) xs"
proof (induction ids arbitrary: xs)
  case Nil
  then show ?case by (simp add: map_idI)
next
  case (Cons i ids)
  let ?ys = "map (\<lambda>s. if u_id s = i then without_job jid s else s) xs"
  have step: "remove_job_entries jid xs i = ?ys"
    using Cons.prems by (rule remove_job_entries_map)
  have mu: "map u_id ?ys = map u_id xs" by (induction xs) auto
  have d: "distinct (map u_id ?ys)" unfolding mu by (rule Cons.prems(1))
  from Cons.prems have v: "\<forall>s \<in> set ?ys. jobseeker_valid s"
    by (auto simp: jobseeker_valid_without_job)
  have "foldl (remove_job_entries jid) xs (i # ids) = foldl (remove_job_entries jid) ?ys ids"
    by (simp add: step)
  also have "\<dots> = map (\<lambda>s. if u_id s \<in> set ids then without_job jid s else s) ?ys"
    using d v by (rule Cons.IH)
  also have "\<dots> = map (\<lambda>s. if u_id s \<in> set (i # ids) then without_job jid s else s) xs"
    by (induction xs) auto
  finally show ?case .
qed

lemma set_unique_ids [simp]: "set (unique_ids xs) = set xs"
  by (simp add: unique_ids_def)

lemma dual_write_consistent_cong:
  "applications d' = applications d \<Longrightarrow> jobseekers d' = jobseekers d \<Longrightarrow>
   dual_write_consistent d' = dual_write_consistent d"
  by (simp add: dual_write_consistent_def)

lemma entry_fact_in_apps:
  assumes c: "dual_write_consistent d" and s: "s \<in> set (jobseekers d)"
    and e: "e \<in> set (appliedJobs s)"
  shows "\<exists>a \<in> set (applications d). app_jobSeekerId a = u_id s \<and> app_fact a = entry_fact e"
proof -
  from e have "entry_fact e \<in># mset (map entry_fact (appliedJobs s))" by simp
  with c s have "entry_fact e \<in>#
      mset (map app_fact (filter (\<lambda>a. app_jobSeekerId a = u_id s) (applications d)))"
    by (simp add: dual_write_consistent_def)
  then show ?thesis by auto
qed

lemma mset_map_filter:
  "mset (map f (filter (\<lambda>x. P (f x)) xs)) = filter_mset P (mset (map f xs))"
  by (induction xs) auto

lemma length_filter_filter_le: "length (filter P (filter Q xs)) \<le> length (filter P xs)"
  by (induction xs) auto

lemma length_filter_mset: "length (filter P xs) = size (filter_mset P (mset xs))"
  by (simp flip: mset_filter)

lemma entries_of_application:
  assumes c: "dual_write_consistent d" and s: "s \<in> set (jobseekers d)"
  shows "length (filter (\<lambda>e. aj_applicationId e = aid) (appliedJobs s)) \<le> 1"
proof -
  let ?own = "filter (\<lambda>a. app_jobSeekerId a = u_id s) (applications d)"
  have "length (filter (\<lambda>e. aj_applicationId e = aid) (appliedJobs s)) =
        length (filter (\<lambda>t. fst t = aid) (map entry_fact (appliedJobs s)))"
    by (simp add: comp_def entry_fact_def)
  also have "\<dots> = size (filter_mset (\<lambda>t. fst t = aid) (mset (map entry_fact (appliedJobs s))))"
    by (rule length_filter_mset)
  also have "\<dots> = size (filter_mset (\<lambda>t. fst t = aid) (mset (map app_fact ?own)))"
    using c s by (simp add: dual_write_consistent_def)
  also have "\<dots> = length (filter (\<lambda>t. fst t = aid) (map app_fact ?own))"
    by (rule length_filter_mset [symmetric])
  also have "\<dots> = length (filter (\<lambda>a. app_id a = aid) ?own)"
    by (simp add: comp_def app_fact_def)
  also have "\<dots> \<le> length (filter (\<lambda>a. app_id a = aid) (applications d))"
    by (rule length_filter_filter_le)
  also have "\<dots> \<le> 1"
    using c by (intro distinct_filter_le1) (simp add: dual_write_consistent_def)
  finally show ?thesis .
qed

lemma no_entry_of_foreign_application:
  assumes c: "dual_write_consistent d" and s: "s \<in> set (jobseekers d)"
    and a: "a \<in> set (applications d)" and n: "u_id s \<noteq> app_jobSeekerId a"
  shows "\<forall>e \<in> set (appliedJobs s). aj_applicationId e \<noteq> app_id a"
proof
  fix e assume "e \<in> set (appliedJobs s)"
  from entry_fact_in_apps [OF c s this] obtain b
    where b: "b \<in> set (applications d)" "app_jobSeekerId b = u_id s" "app_fact b = entry_fact e"
    by blast
  show "aj_applicationId e \<noteq> app_id a"
  proof
    assume "aj_applicationId e = app_id a"
    with b(3) have "app_id b = app_id a" by (simp add: app_fact_def entry_fact_def)
    moreover from c have "distinct (map app_id (applications d))"
      by (simp add: dual_write_consistent_def)
    ultimately have "b = a" using a b(1) by (rule_tac distinct_map_eq)
    with b(2) n show False by simp
  qed
qed

lemma dual_write_consistent_mapI:
  assumes apps: "applications d' = apps" and seekers: "jobseekers d' = map K xs"
    and K: "\<And>s. u_id (K s) = u_id s"
    and da: "distinct (map app_id apps)" and ds: "distinct (map u_id xs)"
    and own: "\<forall>a \<in> set apps. \<exists>s \<in> set xs. u_id s = app_jobSeekerId a"
    and m: "\<And>s. s \<in> set xs \<Longrightarrow>
        mset (map entry_fact (appliedJobs (K s))) =
        mset (map app_fact (filter (\<lambda>a. app_jobSeekerId a = u_id s) apps))"
  shows "dual_write_consistent d'"
proof -
  have "map u_id (map K xs) = map u_id xs" by (simp add: K)
  with ds have 1: "distinct (map u_id (jobseekers d'))" by (simp only: seekers)
  have 2: "\<forall>a \<in> set (applications d'). \<exists>s \<in> set (jobseekers d'). u_id s = app_jobSeekerId a"
  proof
    fix a assume "a \<in> set (applications d')"
    with own apps obtain s where "s \<in> set xs" "u_id s = app_jobSeekerId a" by auto
    then have "K s \<in> set (jobseekers d')" "u_id (K s) = app_jobSeekerId a"
      by (simp_all add: seekers K)
    then show "\<exists>s \<in> set (jobseekers d'). u_id s = app_jobSeekerId a" by blast
  qed
  have 3: "\<forall>s \<in> set (jobseekers d').
      mset (map entry_fact (appliedJobs s)) =
      mset (map app_fact (filter (\<lambda>a. app_jobSeekerId a = u_id s) (applications d')))"
  proof
    fix s' assume "s' \<in> set (jobseekers d')"
    then obtain s where "s \<in> set xs" "s' = K s" by (auto simp: seekers)
    with m [of s] show "mset (map entry_fact (appliedJobs s')) =
      mset (map app_fact (filter (\<lambda>a. app_jobSeekerId a = u_id s') (applications d')))"
      by (simp add: apps K)
  qed
  from da 1 2 3 show ?thesis by (simp add: dual_write_consistent_def apps)
qed

text \<open>Three ways a handler changes both copies at once.\<close>

lemma consistent_filter:
  assumes c: "dual_write_consistent d"
    and apps: "applications d' = filter (\<lambda>a. P (app_fact a)) (applications d)"
    and seekers: "jobseekers d' =
      map (\<lambda>s. s\<lparr>appliedJobs := filter (\<lambda>e. P (entry_fact e)) (appliedJobs s)\<rparr>) (jobseekers d)"
  shows "dual_write_consistent d'"
proof (rule dual_write_consistent_mapI [OF apps seekers])
  show "distinct (map app_id (filter (\<lambda>a. P (app_fact a)) (applications d)))"
    using c by (simp add: dual_write_consistent_def distinct_map_filter)
  show "distinct (map u_id (jobseekers d))"
    using c by (simp add: dual_write_consistent_def)
  show "\<forall>a \<in> set (filter (\<lambda>a. P (app_fact a)) (applications d)).
      \<exists>s \<in> set (jobseekers d). u_id s = app_jobSeekerId a"
    using c by (simp add: dual_write_consistent_def)
next
  fix s assume s: "s \<in> set (jobseekers d)"
  have "mset (map entry_fact (filter (\<lambda>e. P (entry_fact e)) (appliedJobs s))) =
        filter_mset P (mset (map entry_fact (appliedJobs s)))"
    by (rule mset_map_filter)
  also have "\<dots> = filter_mset P (mset (map app_fact
       (filter (\<lambda>a. app_jobSeekerId a = u_id s) (applications d))))"
    using c s by (simp add: dual_write_consistent_def)
  also have "\<dots> = mset (map app_fact (filter (\<lambda>a. P (app_fact a))
       (filter (\<lambda>a. app_jobSeekerId a = u_id s) (applications d))))"
    by (rule mset_map_filter [symmetric])
  also have "filter (\<lambda>a. P (app_fact a))
       (filter (\<lambda>a. app_jobSeekerId a = u_id s) (applications d)) =
      filter (\<lambda>a. app_jobSeekerId a = u_id s) (filter (\<lambda>a. P (app_fact a)) (applications d))"
    by (simp add: conj_commute)
  finally show "mset (map entry_fact (appliedJobs
        (s\<lparr>appliedJobs := filter (\<lambda>e. P (entry_fact e)) (appliedJobs s)\<rparr>))) =
      mset (map app_fact (filter (\<lambda>a. app_jobSeekerId a =
        u_id s)
        (filter (\<lambda>a. P (app_fact a)) (applications d))))"
    by simp
qed simp

lemma consistent_map:
  assumes c: "dual_write_consistent d"
    and G: "\<And>a. app_fact (G a) = V (app_fact a)" "\<And>a. app_jobSeekerId (G a) = app_jobSeekerId a"
    and H: "\<And>e. entry_fact (H e) = V (entry_fact e)"
    and V: "\<And>t. fst (V t) = fst t"
    and apps: "applications d' = map G (applications d)"
    and seekers: "jobseekers d' =
      map (\<lambda>s. s\<lparr>appliedJobs := map H (appliedJobs s)\<rparr>) (jobseekers d)"
  shows "dual_write_consistent d'"
proof (rule dual_write_consistent_mapI [OF apps seekers])
  have id: "app_id (G a) = app_id a" for a
  proof -
    have "fst (app_fact (G a)) = fst (app_fact a)" by (simp add: G(1) V)
    then show ?thesis by (simp add: app_fact_def)
  qed
  have "map app_id (map G (applications d)) = map app_id (applications d)"
    by (simp add: id)
  with c show "distinct (map app_id (map G (applications d)))"
    by (simp only: dual_write_consistent_def)
  show "distinct (map u_id (jobseekers d))"
    using c by (simp add: dual_write_consistent_def)
  show "\<forall>a \<in> set (map G (applications d)).
      \<exists>s \<in> set (jobseekers d). u_id s = app_jobSeekerId a"
    using c by (simp add: dual_write_consistent_def G(2))
next
  fix s assume s: "s \<in> set (jobseekers d)"
  have "mset (map entry_fact (map H (appliedJobs s))) =
        image_mset V (mset (map entry_fact (appliedJobs s)))"
    by (simp add: H comp_def multiset.map_comp)
  also have "\<dots> = image_mset V (mset (map app_fact
       (filter (\<lambda>a. app_jobSeekerId a = u_id s) (applications d))))"
    using c s by (simp add: dual_write_consistent_def)
  also have "\<dots> = mset (map app_fact (map G
       (filter (\<lambda>a. app_jobSeekerId a = u_id s) (applications d))))"
    by (simp add: G(1) comp_def multiset.map_comp)
  also have "map G (filter (\<lambda>a. app_jobSeekerId a = u_id s) (applications d)) =
      filter (\<lambda>a. app_jobSeekerId a = u_id s) (map G (applications d))"
    by (simp add: filter_map comp_def G(2))
  finally show "mset (map entry_fact (appliedJobs
        (s\<lparr>appliedJobs := map H (appliedJobs s)\<rparr>))) =
      mset (map app_fact (filter (\<lambda>a. app_jobSeekerId a = u_id s) (map G (applications d))))"
    by simp
qed simp

lemma consistent_add:
  assumes c: "dual_write_consistent d"
    and fresh: "\<forall>b \<in> set (applications d). app_id b \<noteq> app_id a"
    and owner: "\<exists>s \<in> set (jobseekers d). u_id s = app_jobSeekerId a"
    and fact: "entry_fact e = app_fact a"
    and apps: "applications d' = applications d @ [a]"
    and seekers: "jobseekers d' =
      map (\<lambda>s. if u_id s = app_jobSeekerId a then s\<lparr>appliedJobs := appliedJobs s @ [e]\<rparr> else s)
        (jobseekers d)"
  shows "dual_write_consistent d'"
proof (rule dual_write_consistent_mapI [OF apps seekers])
  show "distinct (map app_id (applications d @ [a]))"
    using c fresh by (auto simp: dual_write_consistent_def)
  show "distinct (map u_id (jobseekers d))"
    using c by (simp add: dual_write_consistent_def)
  show "\<forall>b \<in> set (applications d @ [a]). \<exists>s \<in> set (jobseekers d). u_id s = app_jobSeekerId b"
    using c owner by (auto simp: dual_write_consistent_def)
next
  fix s assume s: "s \<in> set (jobseekers d)"
  with c have m: "mset (map entry_fact (appliedJobs s)) =
      mset (map app_fact (filter (\<lambda>a. app_jobSeekerId a = u_id s) (applications d)))"
    by (simp add: dual_write_consistent_def)
  show "mset (map entry_fact (appliedJobs
        (if u_id s = app_jobSeekerId a then s\<lparr>appliedJobs := appliedJobs s @ [e]\<rparr> else s))) =
      mset (map app_fact (filter (\<lambda>b. app_jobSeekerId b = u_id s) (applications d @ [a])))"
    using m by (auto simp: fact)
qed simp

lemma consistentD:
  assumes "dual_write_consistent d"
  shows "distinct (map app_id (applications d))" and "distinct (map u_id (jobseekers d))"
    and "\<forall>a \<in> set (applications d). \<exists>s \<in> set (jobseekers d). u_id s = app_jobSeekerId a"
  using assms by (simp_all add: dual_write_consistent_def)

lemma findOne_by_id:
  "distinct (map k xs) \<Longrightarrow> x \<in> set xs \<Longrightarrow> findOne (\<lambda>y. k y = k x) xs = Some x"
proof -
  assume d: "distinct (map k xs)" and x: "x \<in> set xs"
  then have "findOne (\<lambda>y. k y = k x) xs \<noteq> None" by (auto simp: findOne_None_iff)
  then obtain y where y: "findOne (\<lambda>y. k y = k x) xs = Some y" by auto
  then have "y \<in> set xs" "k y = k x" by (auto dest: findOne_Some_iff)
  with d x have "y = x" by (auto intro: distinct_map_eq)
  with y show ?thesis by simp
qed

lemma remove_appliedJob_simps [simp]:
  "u_id (remove_appliedJob aid s) = u_id s"
  "appliedJobs (remove_appliedJob aid s) =
     filter (\<lambda>e. aj_applicationId e \<noteq> aid) (appliedJobs s)"
  by (simp_all add: remove_appliedJob_def)

lemma jobseeker_valid_entries:
  "jobseeker_valid s \<Longrightarrow> \<forall>e \<in> set es. applied_job_valid e \<Longrightarrow>
   jobseeker_valid (s\<lparr>appliedJobs := es\<rparr>)"
  by (simp add: jobseeker_valid_def)

lemma jobseeker_valid_remove:
  "jobseeker_valid s \<Longrightarrow> jobseeker_valid (remove_appliedJob aid s)"
  by (simp add: jobseeker_valid_def remove_appliedJob_def)

lemma jobs_valid_updateOne:
  assumes "\<forall>j \<in> set js. job_valid env j"
    and "\<And>j. job_valid env j \<Longrightarrow> job_valid env (f j)"
  shows "\<forall>j \<in> set (updateOne P f js). job_valid env j"
  by (rule Ball_updateOne) (use assms in auto)

lemma withdraw_keeps_invariant:
  assumes c: "dual_write_consistent d" and v: "schema_valid env d"
  shows "dual_write_consistent (snd (my_applications_id_DELETE env d req)) \<and>
         schema_valid env (snd (my_applications_id_DELETE env d req))"
proof -
  from my_applications_id_DELETE_outcome [of env d req] show ?thesis
  proof (elim disjE exE conjE)
    assume "snd (my_applications_id_DELETE env d req) = d"
    with c v show ?thesis by simp
  next
    fix token decoded aid a saved
    assume a: "findOne (\<lambda>a. app_id a = aid) (applications d) = Some a"
      and o: "app_jobSeekerId a = jwt_userId decoded"
      and sv: "(case findOne (\<lambda>s. u_id s = jwt_userId decoded) (jobseekers d) of
           None \<Rightarrow> Inr (jobseekers d)
         | Some jobSeeker \<Rightarrow>
             JobSeeker_save (remove_appliedJob aid jobSeeker) (jobseekers d)) = Inr saved"
      and eq: "snd (my_applications_id_DELETE env d req) =
        d\<lparr>jobseekers := saved,
          applications := deleteOne (\<lambda>a. app_id a = aid) (applications d),
          jobs := updateOne (\<lambda>x. job_id x = app_jobId a)
                    (\<lambda>x. x\<lparr>job_applicants := job_applicants x - 1\<rparr>) (jobs d)\<rparr>"
    let ?uid = "jwt_userId decoded"
    from a have a': "a \<in> set (applications d)" "app_id a = aid"
      by (auto dest: findOne_Some_iff)
    from consistentD(3) [OF c] a' o obtain s where s: "s \<in> set (jobseekers d)" "u_id s = ?uid"
      by auto
    have f: "findOne (\<lambda>y. u_id y = ?uid) (jobseekers d) = Some s"
      using findOne_by_id [OF consistentD(2) [OF c] s(1)] s(2) by simp
    from sv f have "saved = updateOne (\<lambda>x. u_id x = ?uid)
        (\<lambda>x. remove_appliedJob aid s) (jobseekers d)"
      by (simp add: JobSeeker_save_def s(2) split: if_splits)
    also have "\<dots> = map (\<lambda>x. if u_id x = ?uid then remove_appliedJob aid s else x) (jobseekers d)"
      by (rule updateOne_by_id [OF consistentD(2) [OF c]])
    also have "\<dots> = map (remove_appliedJob aid) (jobseekers d)"
    proof (rule map_cong [OF refl])
      fix x assume x: "x \<in> set (jobseekers d)"
      show "(if u_id x = ?uid then remove_appliedJob aid s else x) = remove_appliedJob aid x"
      proof (cases "u_id x = ?uid")
        case True
        with s x consistentD(2) [OF c] have "x = s" by (auto intro: distinct_map_eq)
        with True show ?thesis by simp
      next
        case False
        with o have "u_id x \<noteq> app_jobSeekerId a" by simp
        from no_entry_of_foreign_application [OF c x a'(1) this] a'(2)
        have "filter (\<lambda>e. aj_applicationId e \<noteq> aid) (appliedJobs x) = appliedJobs x"
          by simp
        with False show ?thesis by (simp add: remove_appliedJob_def)
      qed
    qed
    finally have saved: "saved = map (remove_appliedJob aid) (jobseekers d)" .
    have apps: "deleteOne (\<lambda>a. app_id a = aid) (applications d) =
        filter (\<lambda>a. app_id a \<noteq> aid) (applications d)"
      by (rule deleteOne_by_id [OF consistentD(1) [OF c]])
    have "dual_write_consistent (snd (my_applications_id_DELETE env d req))"
      by (rule consistent_filter [OF c, where P = "\<lambda>t. fst t \<noteq> aid"])
        (simp_all add: eq saved apps app_fact_def entry_fact_def remove_appliedJob_def)
    moreover have "schema_valid env (snd (my_applications_id_DELETE env d req))"
      using v jobs_valid_updateOne [of "jobs d" env "\<lambda>x. x\<lparr>job_applicants := job_applicants x - 1\<rparr>"
          "\<lambda>x. job_id x = app_jobId a"]
      by (simp add: eq saved schema_valid_def jobseeker_valid_remove job_valid_def)
    ultimately show ?thesis ..
  qed
qed

lemma set_appliedJob_none:
  "ud_status u = None \<Longrightarrow> ud_rating u = None \<Longrightarrow> set_appliedJob u e = e"
  by (simp add: set_appliedJob_def Let_def)

lemma set_appliedJob_valid:
  "applied_job_valid e \<Longrightarrow> update_valid u \<Longrightarrow> applied_job_valid (set_appliedJob u e)"
  by (auto simp: applied_job_valid_def set_appliedJob_def Let_def update_valid_def
      split: option.splits)

lemma app_fact_set_application:
  "app_fact (if app_id a = aid then set_application u a else a) =
   patched_fact u aid (app_fact a)"
  by (simp add: app_fact_def patched_fact_def set_application_def Let_def
      split: option.splits)

lemma entry_fact_set_appliedJob:
  "entry_fact (if aj_applicationId e = aid then set_appliedJob u e else e) =
   patched_fact u aid (entry_fact e)"
  by (simp add: entry_fact_def patched_fact_def set_appliedJob_def Let_def
      split: option.splits)

lemma mirror_write_map:
  assumes c: "dual_write_consistent d" and a: "a \<in> set (applications d)"
  shows "jobseekers (mirror_write u (app_jobSeekerId a) (app_id a) d) =
         map (\<lambda>s. s\<lparr>appliedJobs :=
                map (\<lambda>e. if aj_applicationId e = app_id a then set_appliedJob u e else e)
                  (appliedJobs s)\<rparr>) (jobseekers d)"
    (is "_ = map ?K _")
proof (cases "ud_status u = None \<and> ud_rating u = None")
  case True
  then have "?K s = s" for s
    by (simp add: set_appliedJob_none map_idI)
  with True show ?thesis by (simp add: mirror_write_def map_idI)
next
  case False
  let ?Q = "\<lambda>s. u_id s = app_jobSeekerId a \<and> (\<exists>e \<in> set (appliedJobs s). aj_applicationId e = app_id a)"
  let ?h = "set_appliedJob u"
  let ?F = "\<lambda>s. s\<lparr>appliedJobs := updateOne (\<lambda>e. aj_applicationId e = app_id a) ?h (appliedJobs s)\<rparr>"
  have "length (filter ?Q (jobseekers d)) \<le> 1"
    by (rule filter_conj_le1) (rule distinct_filter_le1 [OF consistentD(2) [OF c]])
  then have "updateOne ?Q ?F (jobseekers d) = map (\<lambda>s. if ?Q s then ?F s else s) (jobseekers d)"
    by (rule updateOne_map)
  also have "\<dots> = map ?K (jobseekers d)"
  proof (rule map_cong [OF refl])
    fix s assume s: "s \<in> set (jobseekers d)"
    show "(if ?Q s then ?F s else s) = ?K s"
    proof (cases "?Q s")
      case True
      then show ?thesis
        by (simp add: updateOne_map [OF entries_of_application [OF c s]])
    next
      case nq: False
      have "\<forall>e \<in> set (appliedJobs s). aj_applicationId e \<noteq> app_id a"
      proof (cases "u_id s = app_jobSeekerId a")
        case True
        with nq show ?thesis by auto
      next
        case False
        then show ?thesis by (rule no_entry_of_foreign_application [OF c s a])
      qed
      then have "map (\<lambda>e. if aj_applicationId e = app_id a then ?h e else e) (appliedJobs s) =
          appliedJobs s"
        by (simp add: map_idI)
      then have "?K s = s" by simp
      moreover from nq have "(if ?Q s then ?F s else s) = s" by (simp only: if_False)
      ultimately show ?thesis by simp
    qed
  qed
  finally have "updateOne ?Q ?F (jobseekers d) = map ?K (jobseekers d)" .
  moreover from False have "mirror_write u (app_jobSeekerId a) (app_id a) d =
      d\<lparr>jobseekers := updateOne ?Q ?F (jobseekers d)\<rparr>"
    unfolding mirror_write_def by (simp only: if_False)
  ultimately show ?thesis by simp
qed

lemma patch_keeps_invariant:
  assumes c: "dual_write_consistent d" and v: "schema_valid env d"
  shows "dual_write_consistent (snd (applications_id_PATCH env d req)) \<and>
         schema_valid env (snd (applications_id_PATCH env d req))"
proof -
  from applications_id_PATCH_outcome [of env d req] show ?thesis
  proof (elim disjE exE conjE)
    assume "snd (applications_id_PATCH env d req) = d"
    with c v show ?thesis by simp
  next
    fix token decoded aid a j u
    assume a: "findOne (\<lambda>a. app_id a = aid) (applications d) = Some a"
      and cu: "cast_update env (updateFields env req) = Returns u"
      and eq: "snd (applications_id_PATCH env d req) =
        mirror_write u (app_jobSeekerId a) aid
          (d\<lparr>applications := updateOne (\<lambda>a. app_id a = aid)
              (set_application u) (applications d)\<rparr>)"
    let ?g = "set_application u"
    let ?h = "set_appliedJob u"
    let ?G = "\<lambda>a. if app_id a = aid then ?g a else a"
    let ?H = "\<lambda>e. if aj_applicationId e = aid then ?h e else e"
    let ?d1 = "d\<lparr>applications := updateOne (\<lambda>a. app_id a = aid) ?g (applications d)\<rparr>"
    from a have a': "a \<in> set (applications d)" "app_id a = aid"
      by (auto dest: findOne_Some_iff)
    have apps: "updateOne (\<lambda>a. app_id a = aid) ?g (applications d) = map ?G (applications d)"
      by (rule updateOne_by_id [OF consistentD(1) [OF c]])
    have "jobseekers (mirror_write u (app_jobSeekerId a) (app_id a) ?d1) =
          jobseekers (mirror_write u (app_jobSeekerId a) (app_id a) d)"
      by (simp add: mirror_write_def)
    with mirror_write_map [OF c a'(1), of u] a'(2)
    have seekers: "jobseekers (snd (applications_id_PATCH env d req)) =
        map (\<lambda>s. s\<lparr>appliedJobs := map ?H (appliedJobs s)\<rparr>) (jobseekers d)"
      by (simp add: eq)
    have "dual_write_consistent (snd (applications_id_PATCH env d req))"
    proof (rule consistent_map [OF c, where G = ?G and H = ?H and V = "patched_fact u aid"])
      show "applications (snd (applications_id_PATCH env d req)) = map ?G (applications d)"
        by (simp add: eq apps)
      show "jobseekers (snd (applications_id_PATCH env d req)) =
        map (\<lambda>s. s\<lparr>appliedJobs := map ?H (appliedJobs s)\<rparr>) (jobseekers d)"
        by (rule seekers)
    qed (simp_all add: app_fact_set_application entry_fact_set_appliedJob patched_fact_def)
    moreover have "schema_valid env (snd (applications_id_PATCH env d req))"
    proof -
      have uv: "update_valid u" using cu by (rule cast_update_valid)
      have "jobseeker_valid (s\<lparr>appliedJobs := map ?H (appliedJobs s)\<rparr>)"
        if "jobseeker_valid s" for s
        using that uv by (auto simp: jobseeker_valid_def set_appliedJob_valid)
      moreover have "jobs (snd (applications_id_PATCH env d req)) = jobs d"
        by (simp add: eq)
      ultimately show ?thesis using v by (simp add: schema_valid_def seekers)
    qed
    ultimately show ?thesis ..
  qed
qed

lemma store_appliedJob_saved:
  assumes "findOne (\<lambda>s. u_id s = sid) (jobseekers d) = Some s"
    and "\<forall>x \<in> set (appliedJobs s). aj_jobId x \<noteq> jid"
    and "jobseeker_valid (s\<lparr>appliedJobs := appliedJobs s @ [e]\<rparr>)"
  shows "store_appliedJob sid jid e d =
         d\<lparr>jobseekers := updateOne (\<lambda>x. u_id x = sid)
              (\<lambda>x. s\<lparr>appliedJobs := appliedJobs s @ [e]\<rparr>) (jobseekers d)\<rparr>"
proof -
  from assms(1) have "u_id s = sid" by (auto dest: findOne_Some_iff)
  with assms show ?thesis by (simp add: store_appliedJob_def JobSeeker_save_def)
qed

lemma appliedJobData_valid:
  "job_valid env j \<Longrightarrow> applied_job_valid (appliedJobData env jid j a req)"
  by (simp add: job_valid_def applied_job_valid_def appliedJobData_def application_statuses_def
      rating_valid_def)

lemma apply_to_job_keeps_invariant:
  assumes c: "dual_write_consistent d" and v: "schema_valid env d"
  shows "dual_write_consistent (snd (apply_to_job env d req sid jid)) \<and>
         schema_valid env (snd (apply_to_job env d req sid jid))"
proof -
  from apply_to_job_outcome [of env d req sid jid] show ?thesis
  proof (elim disjE exE conjE)
    assume "snd (apply_to_job env d req sid jid) = d"
    with c v show ?thesis by simp
  next
    assume eq: "snd (apply_to_job env d req sid jid) =
      d\<lparr>jobs := updateOne (\<lambda>x. job_id x = jid) (\<lambda>x. x\<lparr>job_status := ''Closed''\<rparr>) (jobs d)\<rparr>"
    have "dual_write_consistent (snd (apply_to_job env d req sid jid))"
      using c by (simp add: eq dual_write_consistent_def)
    moreover have "schema_valid env (snd (apply_to_job env d req sid jid))"
      using v jobs_valid_updateOne [of "jobs d" env "\<lambda>x. x\<lparr>job_status := ''Closed''\<rparr>"
          "\<lambda>x. job_id x = jid"]
      by (simp add: eq schema_valid_def job_valid_def)
    ultimately show ?thesis ..
  next
    fix j s a stored
    assume j: "findOne (\<lambda>j. job_id j = jid) (jobs d) = Some j"
      and s: "findOne (\<lambda>s. u_id s = sid) (jobseekers d) = Some s"
      and ne: "\<forall>e \<in> set (appliedJobs s). aj_jobId e \<noteq> jid"
      and cr: "Application_create env (applicationData env jid sid s req) (applications d) =
          Inr (a, stored)"
      and eq: "snd (apply_to_job env d req sid jid) =
        store_appliedJob sid jid (appliedJobData env jid j a req)
          (d\<lparr>applications := stored,
             jobs := updateOne (\<lambda>x. job_id x = jid)
               (\<lambda>x. x\<lparr>job_applicants := job_applicants x + 1\<rparr>) (jobs d)\<rparr>)"
    let ?e = "appliedJobData env jid j a req"
    let ?s' = "s\<lparr>appliedJobs := appliedJobs s @ [?e]\<rparr>"
    let ?d1 = "d\<lparr>applications := stored,
             jobs := updateOne (\<lambda>x. job_id x = jid)
               (\<lambda>x. x\<lparr>job_applicants := job_applicants x + 1\<rparr>) (jobs d)\<rparr>"
    from Application_create_Inr [OF cr]
    have a: "stored = applications d @ [a]" "app_rating a = Some 0" "app_jobId a = jid"
      "app_jobSeekerId a = sid" "app_status a = ''Pending''"
      "\<forall>b \<in> set (applications d). app_id b \<noteq> app_id a"
      by (simp_all add: applicationData_def)
    from j have j': "j \<in> set (jobs d)" by (auto dest: findOne_Some_iff)
    from s have s': "s \<in> set (jobseekers d)" "u_id s = sid" by (auto dest: findOne_Some_iff)
    from v j' have "applied_job_valid ?e" by (simp add: schema_valid_def appliedJobData_valid)
    with v s'(1) have valid: "jobseeker_valid ?s'"
      by (simp add: schema_valid_def jobseeker_valid_def)
    have "snd (apply_to_job env d req sid jid) =
        ?d1\<lparr>jobseekers := updateOne (\<lambda>x. u_id x = sid) (\<lambda>x. ?s') (jobseekers ?d1)\<rparr>"
      unfolding eq by (rule store_appliedJob_saved) (simp_all add: s ne valid)
    also have "updateOne (\<lambda>x. u_id x = sid) (\<lambda>x. ?s') (jobseekers ?d1) =
        map (\<lambda>x. if u_id x = sid then ?s' else x) (jobseekers d)"
      by (simp add: updateOne_by_id [OF consistentD(2) [OF c]])
    also have "\<dots> = map (\<lambda>x. if u_id x = app_jobSeekerId a
                               then x\<lparr>appliedJobs := appliedJobs x @ [?e]\<rparr> else x) (jobseekers d)"
    proof (rule map_cong [OF refl])
      fix x assume "x \<in> set (jobseekers d)"
      with s' consistentD(2) [OF c] have "u_id x = sid \<Longrightarrow> x = s"
        by (auto intro: distinct_map_eq)
      then show "(if u_id x = sid then ?s' else x) =
          (if u_id x = app_jobSeekerId a then x\<lparr>appliedJobs := appliedJobs x @ [?e]\<rparr> else x)"
        by (auto simp: a(4))
    qed
    finally have eq': "snd (apply_to_job env d req sid jid) =
        ?d1\<lparr>jobseekers := map (\<lambda>x. if u_id x = app_jobSeekerId a
                               then x\<lparr>appliedJobs := appliedJobs x @ [?e]\<rparr> else x) (jobseekers d)\<rparr>" .
    have "dual_write_consistent (snd (apply_to_job env d req sid jid))"
    proof (rule consistent_add [OF c a(6), where e = ?e])
      show "\<exists>s \<in> set (jobseekers d). u_id s = app_jobSeekerId a"
        using s' a(4) by auto
      show "entry_fact ?e = app_fact a"
        by (simp add: entry_fact_def app_fact_def appliedJobData_def a)
    qed (simp_all add: eq' a(1))
    moreover have "schema_valid env (snd (apply_to_job env d req sid jid))"
    proof -
      have "jobseeker_valid (x\<lparr>appliedJobs := appliedJobs x @ [?e]\<rparr>)"
        if "jobseeker_valid x" for x
        using that \<open>applied_job_valid ?e\<close> by (simp add: jobseeker_valid_def)
      with v jobs_valid_updateOne [of "jobs d" env "\<lambda>x. x\<lparr>job_applicants := job_applicants x + 1\<rparr>"
          "\<lambda>x. job_id x = jid"]
      show ?thesis by (auto simp: eq' schema_valid_def job_valid_def)
    qed
    ultimately show ?thesis ..
  qed
qed

lemma apply_keeps_invariant:
  assumes "dual_write_consistent d" and "schema_valid env d"
  shows "dual_write_consistent (snd (applications_POST env d req)) \<and>
         schema_valid env (snd (applications_POST env d req))"
  using applications_POST_outcome [of env d req] assms
  by (auto simp: apply_to_job_keeps_invariant)

lemma job_delete_keeps_invariant:
  assumes c: "dual_write_consistent d" and v: "schema_valid env d"
  shows "dual_write_consistent (snd (jobs_id_DELETE env d req)) \<and>
         schema_valid env (snd (jobs_id_DELETE env d req))"
proof -
  from jobs_id_DELETE_outcome [of env d req] show ?thesis
  proof (elim disjE exE conjE)
    assume "snd (jobs_id_DELETE env d req) = d"
    with c v show ?thesis by simp
  next
    fix token decoded jid j
    assume eq: "snd (jobs_id_DELETE env d req) =
        d\<lparr>jobseekers := foldl (remove_job_entries jid) (jobseekers d)
                    (unique_ids (map app_jobSeekerId
                       (filter (\<lambda>a. app_jobId a = jid) (applications d)))),
          applications := deleteMany (\<lambda>a. app_jobId a = jid) (applications d),
          jobs := deleteOne (\<lambda>x. job_id x = jid) (jobs d)\<rparr>"
    from v have vs: "\<forall>s \<in> set (jobseekers d). jobseeker_valid s"
      by (simp add: schema_valid_def)
    have "foldl (remove_job_entries jid) (jobseekers d)
            (unique_ids (map app_jobSeekerId
               (filter (\<lambda>a. app_jobId a = jid) (applications d)))) =
          map (\<lambda>s. if u_id s \<in> applicants_of d jid then without_job jid s else s) (jobseekers d)"
      by (simp add: foldl_remove_job_entries_map [OF consistentD(2) [OF c] vs] applicants_of_def)
    also have "\<dots> = map (without_job jid) (jobseekers d)"
    proof (rule map_cong [OF refl])
      fix s assume s: "s \<in> set (jobseekers d)"
      show "(if u_id s \<in> applicants_of d jid then without_job jid s else s) = without_job jid s"
      proof (cases "u_id s \<in> applicants_of d jid")
        case True
        then show ?thesis by simp
      next
        case False
        have "\<forall>e \<in> set (appliedJobs s). aj_jobId e \<noteq> jid"
        proof
          fix e assume "e \<in> set (appliedJobs s)"
          from entry_fact_in_apps [OF c s this] obtain b where
            b: "b \<in> set (applications d)" "app_jobSeekerId b = u_id s" "app_fact b = entry_fact e"
            by blast
          show "aj_jobId e \<noteq> jid"
          proof
            assume "aj_jobId e = jid"
            with b(3) have "app_jobId b = jid" by (simp add: app_fact_def entry_fact_def)
            with b(1,2) have "u_id s \<in> applicants_of d jid"
              by (force simp: applicants_of_def)
            with False show False by simp
          qed
        qed
        then have "without_job jid s = s" by (simp add: without_job_def)
        with False show ?thesis by simp
      qed
    qed
    finally have seekers: "jobseekers (snd (jobs_id_DELETE env d req)) =
        map (without_job jid) (jobseekers d)"
      by (simp add: eq)
    have "dual_write_consistent (snd (jobs_id_DELETE env d req))"
      by (rule consistent_filter [OF c, where P = "\<lambda>t. fst (snd t) \<noteq> jid"])
        (simp_all add: seekers, simp_all add: eq deleteMany_def app_fact_def entry_fact_def
          without_job_def)
    moreover have "schema_valid env (snd (jobs_id_DELETE env d req))"
    proof -
      have "jobs (snd (jobs_id_DELETE env d req)) = deleteOne (\<lambda>x. job_id x = jid) (jobs d)"
        by (simp add: eq)
      with v set_deleteOne [of "\<lambda>x. job_id x = jid" "jobs d"] show ?thesis
        by (auto simp: schema_valid_def seekers jobseeker_valid_without_job)
    qed
    ultimately show ?thesis ..
  qed
qed

lemma mirrored_once:
  assumes c: "dual_write_consistent d" and a: "a \<in> set (applications d)"
  shows "\<exists>s \<in> set (jobseekers d). u_id s = app_jobSeekerId a \<and>
           (\<exists>e. filter (\<lambda>e. aj_applicationId e = app_id a) (appliedJobs s) = [e] \<and>
                entry_fact e = app_fact a)"
proof -
  from consistentD(3) [OF c] a obtain s
    where s: "s \<in> set (jobseekers d)" "u_id s = app_jobSeekerId a" by auto
  from a s(2) have "app_fact a \<in>#
      mset (map app_fact (filter (\<lambda>b. app_jobSeekerId b = u_id s) (applications d)))"
    by simp
  with c s(1) have "app_fact a \<in># mset (map entry_fact (appliedJobs s))"
    by (simp add: dual_write_consistent_def)
  then obtain e where e: "e \<in> set (appliedJobs s)" "entry_fact e = app_fact a" by auto
  then have "aj_applicationId e = app_id a" by (simp add: entry_fact_def app_fact_def)
  with e(1) have m: "e \<in> set (filter (\<lambda>e. aj_applicationId e = app_id a) (appliedJobs s))"
    by simp
  have "length (filter (\<lambda>e. aj_applicationId e = app_id a) (appliedJobs s)) \<le> 1"
    by (rule entries_of_application [OF c s(1)])
  with m have "filter (\<lambda>e. aj_applicationId e = app_id a) (appliedJobs s) = [e]"
    by (cases "filter (\<lambda>e. aj_applicationId e = app_id a) (appliedJobs s)") auto
  with s e(2) show ?thesis by blast
qed

lemmas handler_defs = applications_POST_def apply_to_job_def store_appliedJob_def
  JobSeeker_save_def jobseeker_valid_def applied_job_valid_def appliedJobData_def
  Application_create_def applicationData_def application_valid_def application_statuses_def
  rating_valid_def lower_trim_def
  applications_id_PATCH_def update_appliedJobs_entry_def updateFields_def updateAppliedJobs_def
  cast_update_def castNumber_def set_application_def set_appliedJob_def toNumber_def
  status_accepted_def rating_accepted_def rating_throws_def
  my_applications_id_DELETE_def remove_appliedJob_def
  truthy_def or_empty_def findOne_def deadline_passed_def reply_def reply_with_def Let_def
  ascii_trim_def ascii_space_def ascii_lower_def app_fact_def entry_fact_def

lemma close_expired_map:
  "deadlines_parse env js \<Longrightarrow>
   close_expired env js =
     (map (\<lambda>j. if expired_on_server env j then close_job j else j) js, True)"
  by (induction js) (auto simp: deadlines_parse_def expired_on_server_def close_job_def)

lemma close_job_simps [simp]:
  "job_id (close_job j) = job_id j" "job_status (close_job j) = ''Closed''"
  "close_job (close_job j) = close_job j"
  by (simp_all add: close_job_def)

lemma set_newest_first [simp]: "set (newest_first js) = set js"
  by (simp add: newest_first_def)

lemma foldl_close_if_expired:
  "distinct (map job_id js) \<Longrightarrow>
   foldl (close_if_expired env) js ys =
   map (\<lambda>x. if \<exists>y \<in> set ys. job_status y = ''Active'' \<and> deadline_passed env y \<and>
                  job_id y = job_id x
            then close_job x else x) js"
proof (induction ys arbitrary: js)
  case Nil
  then show ?case by (simp add: map_idI)
next
  case (Cons y ys)
  let ?f = "\<lambda>x. if job_status y = ''Active'' \<and> deadline_passed env y \<and> job_id y = job_id x
                then close_job x else x"
  have step: "close_if_expired env js y = map ?f js"
  proof (cases "job_status y = ''Active'' \<and> deadline_passed env y")
    case True
    have "updateOne (\<lambda>x. job_id x = job_id y) (\<lambda>x. x\<lparr>job_status := ''Closed''\<rparr>) js =
          map (\<lambda>x. if job_id x = job_id y then x\<lparr>job_status := ''Closed''\<rparr> else x) js"
      by (rule updateOne_by_id [OF Cons.prems])
    with True show ?thesis
      by (auto simp: close_if_expired_def close_job_def eq_commute [of "job_id y"])
  next
    case False
    then show ?thesis by (auto simp: close_if_expired_def map_idI)
  qed
  have mu: "map job_id (map ?f js) = map job_id js" by (induction js) auto
  have d: "distinct (map job_id (map ?f js))" unfolding mu by (rule Cons.prems)
  have "foldl (close_if_expired env) js (y # ys) = foldl (close_if_expired env) (map ?f js) ys"
    by (simp add: step)
  also have "\<dots> = map (\<lambda>x. if \<exists>y \<in> set ys. job_status y = ''Active'' \<and> deadline_passed env y \<and>
                  job_id y = job_id x then close_job x else x) (map ?f js)"
    using d by (rule Cons.IH)
  also have "\<dots> = map (\<lambda>x. if \<exists>z \<in> set (y # ys). job_status z = ''Active'' \<and>
                  deadline_passed env z \<and> job_id z = job_id x then close_job x else x) js"
    by (induction js) auto
  finally show ?case .
qed

lemma jobs_GET_closes:
  assumes j: "j \<in> set (jobs d)" and d: "distinct (map job_id (jobs d))"
    and p: "deadlines_parse env (jobs d)" and e: "expired_on_server env j"
  shows "status (fst (jobs_GET env d)) = 200 \<and>
         findOne (\<lambda>x. job_id x = job_id j) (jobs (snd (jobs_GET env d))) = Some (close_job j) \<and>
         (\<exists>listed. payload (fst (jobs_GET env d)) = Some listed \<and>
            (\<forall>x \<in> set listed. job_id x \<noteq> job_id j \<and> job_status x = ''Active''))"
proof -
  let ?f = "\<lambda>j. if expired_on_server env j then close_job j else j"
  let ?closed = "map ?f (jobs d)"
  have eq: "jobs_GET env d =
      (reply_with 200 (newest_first (filter (\<lambda>j. job_status j = ''Active'') ?closed)),
       d\<lparr>jobs := ?closed\<rparr>)"
    by (simp add: jobs_GET_def close_expired_map [OF p] Let_def)
  have mu: "map job_id ?closed = map job_id (jobs d)" by (induction "jobs d") auto
  have dc: "distinct (map job_id ?closed)" unfolding mu by (rule d)
  from j e have "close_job j \<in> set ?closed" by force
  from findOne_by_id [OF dc this]
  have stored: "findOne (\<lambda>x. job_id x = job_id j) ?closed = Some (close_job j)" by simp
  have listed: "job_id x \<noteq> job_id j \<and> job_status x = ''Active''"
    if "x \<in> set (newest_first (filter (\<lambda>j. job_status j = ''Active'') ?closed))" for x
  proof -
    from that obtain y where y: "y \<in> set (jobs d)" "x = ?f y" "job_status x = ''Active''"
      by auto
    have "job_id x \<noteq> job_id j"
    proof
      assume "job_id x = job_id j"
      with y(2) have "job_id y = job_id j" by (simp split: if_splits)
      with d y(1) j have "y = j" by (auto intro: distinct_map_eq)
      with y(2,3) e show False by simp
    qed
    with y(3) show ?thesis by simp
  qed
  have st: "status (fst (jobs_GET env d)) = 200"
    and pl: "payload (fst (jobs_GET env d)) =
      Some (newest_first (filter (\<lambda>j. job_status j = ''Active'') ?closed))"
    and jb: "jobs (snd (jobs_GET env d)) = ?closed"
    by (simp_all add: eq reply_with_def)
  show ?thesis unfolding st pl jb using stored listed by blast
qed

lemma jobs_employer_GET_closes:
  assumes j: "j \<in> set (jobs d)" and d: "distinct (map job_id (jobs d))"
    and t: "cookie = Some token" "token \<noteq> []" "verifyToken env token = Some decoded"
      "jwt_role decoded = ''employer''"
    and o: "job_employerId j = jwt_userId decoded"
    and a: "job_status j = ''Active''" and e: "deadline_passed env j"
  shows "status (fst (jobs_employer_GET env d cookie)) = 200 \<and>
         findOne (\<lambda>x. job_id x = job_id j) (jobs (snd (jobs_employer_GET env d cookie))) =
           Some (close_job j) \<and>
         (\<exists>listed. payload (fst (jobs_employer_GET env d cookie)) = Some listed \<and>
            job_id j \<in> set (map (\<lambda>v. job_id (fst v)) listed) \<and>
            (\<forall>v \<in> set listed. job_id (fst v) = job_id j \<longrightarrow> job_status (fst v) = ''Closed''))"
proof -
  let ?own = "newest_first (filter (\<lambda>j. job_employerId j = jwt_userId decoded) (jobs d))"
  let ?g = "\<lambda>x. if \<exists>y \<in> set ?own. job_status y = ''Active'' \<and> deadline_passed env y \<and>
                  job_id y = job_id x then close_job x else x"
  have eq: "jobs_employer_GET env d cookie =
      (reply_with 200 (map (employer_view env (applications d)) ?own),
       d\<lparr>jobs := map ?g (jobs d)\<rparr>)"
    using t by (simp add: jobs_employer_GET_def Let_def foldl_close_if_expired [OF d])
  from j o have own: "j \<in> set ?own" by simp
  have mu: "map job_id (map ?g (jobs d)) = map job_id (jobs d)" by (induction "jobs d") auto
  have dc: "distinct (map job_id (map ?g (jobs d)))" unfolding mu by (rule d)
  from own a e have gj: "?g j = close_job j" by auto
  from j have "?g j \<in> set (map ?g (jobs d))" unfolding set_map by (rule imageI)
  then have "close_job j \<in> set (map ?g (jobs d))" unfolding gj .
  from findOne_by_id [OF dc this]
  have stored: "findOne (\<lambda>x. job_id x = job_id j) (map ?g (jobs d)) = Some (close_job j)"
    by simp
  have v1: "job_id j \<in> set (map (\<lambda>v. job_id (fst v)) (map (employer_view env (applications d)) ?own))"
    using own by (force simp: employer_view_def)
  have v2: "job_status (fst v) = ''Closed''"
    if "v \<in> set (map (employer_view env (applications d)) ?own)" "job_id (fst v) = job_id j" for v
  proof -
    from that(1) obtain y where y: "y \<in> set (jobs d)" "v = employer_view env (applications d) y"
      by auto
    with that(2) have "job_id y = job_id j" by (simp add: employer_view_def)
    with d y(1) j have "y = j" by (auto intro: distinct_map_eq)
    with y(2) a e show ?thesis by (simp add: employer_view_def)
  qed
  have st: "status (fst (jobs_employer_GET env d cookie)) = 200"
    and pl: "payload (fst (jobs_employer_GET env d cookie)) =
      Some (map (employer_view env (applications d)) ?own)"
    and jb: "jobs (snd (jobs_employer_GET env d cookie)) = map ?g (jobs d)"
    by (simp_all add: eq reply_with_def)
  show ?thesis unfolding st pl jb using stored v1 v2 by blast
qed



subsection \<open>Registration, login and password reset\<close>

lemma auth_token_register [simp]: "auth_token (fst (auth_register_POST env d req)) = None"
  by (simp add: auth_register_POST_def reply_def reply_with_def register_failure_def Let_def
      split: sum.split db_error.split prod.split)

lemma register_payload_unverified:
  "payload (fst (auth_register_POST env d req)) = Some p \<Longrightarrow> \<not> u_isEmailVerified p"
  by (auto simp: auth_register_POST_def reply_def reply_with_def register_failure_def Let_def
      JobSeeker_create_def Employer_create_def new_user_def user.truncate_def user.defs
      split: if_splits sum.splits db_error.splits prod.splits)

lemma reset_unverified_refused:
  assumes "rs_token req = Some token" and "token \<noteq> []"
    and "rs_newPassword req = Some newPassword" and "6 \<le> length newPassword"
    and "reset_user env d token = Some v"
    and "\<not> isTokenExpired env (u_passwordResetTokenExpiry v)" and "\<not> u_isEmailVerified v"
  shows "status (fst (auth_reset_password_POST env d req)) = 403 \<and>
         snd (auth_reset_password_POST env d req) = d"
proof (cases "findOne (\<lambda>s. u_passwordResetToken s = trim env token) (jobseekers d)")
  case None
  with assms show ?thesis
    by (auto simp: auth_reset_password_POST_def reset_user_def reset_found_def truthy_def
        or_empty_def reply_def)
next
  case (Some s)
  with assms(5) have "v = user.truncate s" by (simp add: reset_user_def)
  then have "u_passwordResetTokenExpiry s = u_passwordResetTokenExpiry v"
    "u_isEmailVerified s = u_isEmailVerified v"
    by (simp_all add: user.truncate_def user.defs)
  with assms Some show ?thesis
    by (auto simp: auth_reset_password_POST_def reset_found_def truthy_def
        or_empty_def reply_def)
qed

lemma register_invalid:
  "\<not> registration_valid req \<Longrightarrow>
   status (fst (auth_register_POST env d req)) = 400 \<and> snd (auth_register_POST env d req) = d"
  by (auto simp: auth_register_POST_def registration_valid_def reply_def)

lemma register_taken:
  assumes "rr_username req = Some name" and "username_taken env d name"
    and "usernames_as_stored env d" and "registration_valid req"
  shows "status (fst (auth_register_POST env d req)) = 409 \<and>
         snd (auth_register_POST env d req) = d"
proof -
  have stored: "u_username x = lower_trim env (toLowerCase env name)"
    if "toLowerCase env (u_username x) = toLowerCase env name"
      "toLowerCase env (u_username x) = u_username x" "trim env (u_username x) = u_username x"
    for x :: "'a user_scheme"
  proof -
    from that(1,2) have "toLowerCase env name = u_username x" by simp
    with that(2,3) show ?thesis by (simp add: lower_trim_def)
  qed
  from assms(2,3) have
    "(\<exists>s \<in> set (jobseekers d). u_username s = lower_trim env (toLowerCase env name)) \<or>
     (\<exists>e \<in> set (employers d). u_username e = lower_trim env (toLowerCase env name))"
    unfolding username_taken_def usernames_as_stored_def
    by (meson stored)
  then have "(\<exists>s \<in> set (jobseekers d). u_username s = lower_trim env (toLowerCase env name) \<or>
                                       u_email s = em) \<or>
     (\<exists>e \<in> set (employers d). u_username e = lower_trim env (toLowerCase env name) \<or>
                               u_email e = em)" for em
    by blast
  with assms(1,4) show ?thesis
    by (simp add: auth_register_POST_def registration_valid_def reply_def or_empty_def Let_def)
qed
section \<open>The employer's PATCH\<close>

text \<open>
  C5. An employer whose token is valid sends a PATCH for an application that exists and
  whose job exists but belongs to another employer: the answer is 403 and the database,
  that is the application record and every job seeker's \<open>appliedJobs\<close>, is unchanged.
\<close>

theorem patch_foreign_job_forbidden:
  assumes "pr_cookie req = Some token" and "token \<noteq> []"
    and "verifyToken env token = Some decoded" and "jwt_role decoded = ''employer''"
    and "newObjectId env (pr_applicationId req) = Some aid"
    and "findOne (\<lambda>a. app_id a = aid) (applications d) = Some a"
    and "findOne (\<lambda>j. job_id j = app_jobId a) (jobs d) = Some j"
    and "job_employerId j \<noteq> jwt_userId decoded"
  shows "status (fst (applications_id_PATCH env d req)) = 403 \<and>
         snd (applications_id_PATCH env d req) = d"
  using assms by (simp add: applications_id_PATCH_def reply_def)

theorem patch_foreign_job_forbidden_witness:
  "status (fst (applications_id_PATCH sample_env sample_db globex_patch)) = 403 \<and>
   snd (applications_id_PATCH sample_env sample_db globex_patch) = sample_db"
  by (rule patch_foreign_job_forbidden
        [where token = "''token-globex''" and aid = 200 and a = ann_application
           and j = engineer_job
           and decoded = "\<lparr>jwt_userId = 11, jwt_role = ''employer'', jwt_username = ''globex''\<rparr>"])
     (simp_all add: sample_defs globex_patch_def findOne_def)



section \<open>The rating\<close>

text \<open>
  C9. The claim is that every stored rating lies in the closed interval from 0 to 5. The
  PATCH handler breaks it. Its test \<open>rating >= 0 && rating <= 5\<close> converts \<open>null\<close> to the
  number 0 and so accepts it, and the two updates store the \<open>null\<close> itself, since updates
  run no validator. On the sample deployment, where every rating is in the interval, the
  owning employer's PATCH with the body \<open>{"rating": null}\<close> is answered with 200 and
  leaves \<open>null\<close> as the rating of the application and of its \<open>appliedJobs\<close> entry.
\<close>

theorem rating_null_stored:
  "ratings_in_range sample_db \<and>
   rating_accepted sample_env (pr_rating acme_patch_null) \<and>
   status (fst (applications_id_PATCH sample_env sample_db acme_patch_null)) = 200 \<and>
   map_option app_rating
     (payload (fst (applications_id_PATCH sample_env sample_db acme_patch_null))) = Some None \<and>
   map app_rating
     (applications (snd (applications_id_PATCH sample_env sample_db acme_patch_null))) = [None] \<and>
   map (\<lambda>s. map aj_rating (appliedJobs s))
     (jobseekers (snd (applications_id_PATCH sample_env sample_db acme_patch_null))) =
     [[None], []] \<and>
   \<not> ratings_in_range (snd (applications_id_PATCH sample_env sample_db acme_patch_null))"
proof -
  have r: "ratings_in_range sample_db"
    by (simp add: ratings_in_range_def rating_in_range_def sample_defs)
  have g: "rating_accepted sample_env (pr_rating acme_patch_null)"
    by (simp add: rating_accepted_def toNumber_def acme_patch_null_def acme_patch_def)
  have eq: "applications_id_PATCH sample_env sample_db acme_patch_null =
      (reply_with 200 (ann_application\<lparr>app_rating := None\<rparr>),
       sample_db\<lparr>applications := [ann_application\<lparr>app_rating := None\<rparr>],
         jobseekers := [ann\<lparr>appliedJobs := map (\<lambda>e. e\<lparr>aj_rating := None\<rparr>) (appliedJobs ann)\<rparr>,
                        bob]\<rparr>)"
    by (simp add: handler_defs sample_defs acme_patch_null_def acme_patch_def)
  have s: "status (fst (applications_id_PATCH sample_env sample_db acme_patch_null)) = 200"
    and p: "map_option app_rating
       (payload (fst (applications_id_PATCH sample_env sample_db acme_patch_null))) = Some None"
    and a: "map app_rating
       (applications (snd (applications_id_PATCH sample_env sample_db acme_patch_null))) = [None]"
    and j: "map (\<lambda>s. map aj_rating (appliedJobs s))
       (jobseekers (snd (applications_id_PATCH sample_env sample_db acme_patch_null))) =
       [[None], []]"
    by (simp_all add: eq reply_with_def ann_def bob_def)
  have n: "\<not> ratings_in_range (snd (applications_id_PATCH sample_env sample_db acme_patch_null))"
    by (simp add: eq ratings_in_range_def rating_in_range_def)
  from r g s p a j n show ?thesis by simp
qed

section \<open>Applying twice\<close>

text \<open>
  C3. A request to apply that carries a job seeker's token and names a job for which this
  job seeker has already applied, by a record of the applications collection or by an
  entry of the job seeker's \<open>appliedJobs\<close>, is refused with a 4xx status and changes
  neither the applications collection nor any job seeker. No two applications ever share
  job and job seeker: each handler that writes the applications collection keeps the
  pairs of job and job seeker distinct.
\<close>

theorem second_application_rejected:
  "(ar_cookie req = Some token \<and> verifyToken env token = Some decoded \<and>
    ar_jobId req = Some jobId \<and> newObjectId env jobId = Some jid \<and>
    already_applied d (jwt_userId decoded) jid \<longrightarrow>
      status (fst (applications_POST env d req)) \<in> {400, 401, 403, 404} \<and>
      applications (snd (applications_POST env d req)) = applications d \<and>
      jobseekers (snd (applications_POST env d req)) = jobseekers d) \<and>
   (unique_applications d \<longrightarrow>
      unique_applications (snd (applications_POST env d req)) \<and>
      unique_applications (snd (applications_id_PATCH env d pr)) \<and>
      unique_applications (snd (my_applications_id_DELETE env d dr)) \<and>
      unique_applications (snd (jobs_id_DELETE env d dj)))"
proof (intro conjI impI)
  assume asm: "ar_cookie req = Some token \<and> verifyToken env token = Some decoded \<and>
    ar_jobId req = Some jobId \<and> newObjectId env jobId = Some jid \<and>
    already_applied d (jwt_userId decoded) jid"
  then have a: "already_applied d (jwt_userId decoded) jid" by simp
  from applications_POST_outcome [of env d req]
  have "status (fst (applications_POST env d req)) \<in> {400, 401, 403, 404} \<and>
        applications (snd (applications_POST env d req)) = applications d \<and>
        jobseekers (snd (applications_POST env d req)) = jobseekers d"
  proof (elim disjE exE conjE)
    assume "snd (applications_POST env d req) = d"
      and "status (fst (applications_POST env d req)) \<in> {400, 401, 403}"
    then show ?thesis by auto
  next
    fix token' decoded' jobId' jid'
    assume "ar_cookie req = Some token'" "verifyToken env token' = Some decoded'"
      "ar_jobId req = Some jobId'" "newObjectId env jobId' = Some jid'"
      and r: "applications_POST env d req = apply_to_job env d req (jwt_userId decoded') jid'"
    with asm have "decoded' = decoded" "jid' = jid" by simp_all
    with apply_to_job_already_applied [OF a, of env req] show ?thesis
      unfolding r by auto
  qed
  then show "status (fst (applications_POST env d req)) \<in> {400, 401, 403, 404}"
    and "applications (snd (applications_POST env d req)) = applications d"
    and "jobseekers (snd (applications_POST env d req)) = jobseekers d"
    by simp_all
next
  assume u: "unique_applications d"
  show "unique_applications (snd (applications_POST env d req))"
    using u by (rule applications_POST_unique)
  show "unique_applications (snd (applications_id_PATCH env d pr))"
    using u by (rule applications_id_PATCH_unique)
  show "unique_applications (snd (my_applications_id_DELETE env d dr))"
    using u by (rule my_applications_id_DELETE_unique)
  show "unique_applications (snd (jobs_id_DELETE env d dj))"
    using u by (rule jobs_id_DELETE_unique)
qed

theorem second_application_rejected_witness:
  "already_applied sample_db 1 100 \<and> unique_applications sample_db \<and>
   status (fst (applications_POST sample_env sample_db ann_apply)) = 400 \<and>
   applications (snd (applications_POST sample_env sample_db ann_apply)) = applications sample_db \<and>
   jobseekers (snd (applications_POST sample_env sample_db ann_apply)) = jobseekers sample_db \<and>
   unique_applications (snd (applications_POST sample_env sample_db ann_apply)) \<and>
   unique_applications (snd (applications_POST sample_env sample_db bob_apply)) \<and>
   length (applications (snd (applications_POST sample_env sample_db bob_apply))) = 2"
proof -
  have h1: "already_applied sample_db 1 100"
    by (simp add: already_applied_def sample_defs)
  have h2: "unique_applications sample_db"
    by (simp add: unique_applications_def sample_defs)
  have s1: "status (fst (applications_POST sample_env sample_db ann_apply)) = 400"
    by (simp add: applications_POST_def apply_to_job_def sample_defs ann_apply_def truthy_def
        or_empty_def findOne_def deadline_passed_def reply_def)
  have s2: "length (applications (snd (applications_POST sample_env sample_db bob_apply))) = 2"
    by (simp add: applications_POST_def apply_to_job_def sample_defs bob_apply_def truthy_def
        or_empty_def findOne_def deadline_passed_def Application_create_def applicationData_def
        application_valid_def application_statuses_def Let_def reply_with_def
        lower_trim_def rating_valid_def ascii_trim_def ascii_space_def ascii_lower_def)
  have t1: "ar_cookie ann_apply = Some ''token-ann'' \<and>
    verifyToken sample_env ''token-ann'' =
       Some \<lparr>jwt_userId = 1, jwt_role = ''job-seeker'', jwt_username = ''ann''\<rparr> \<and>
    ar_jobId ann_apply = Some ''000000000000000000000100'' \<and>
    newObjectId sample_env ''000000000000000000000100'' = Some 100"
    by (simp add: ann_apply_def sample_env_def)
  from second_application_rejected
         [of ann_apply "''token-ann''" sample_env
            "\<lparr>jwt_userId = 1, jwt_role = ''job-seeker'', jwt_username = ''ann''\<rparr>"
            "''000000000000000000000100''" 100 sample_db]
       second_application_rejected [of bob_apply _ sample_env _ _ _ sample_db]
    h1 h2 s1 s2 t1
  show ?thesis by simp
qed

section \<open>Deleting a job\<close>

text \<open>
  C2. The employer who owns a job deletes it. The answer is 200; the job document is gone
  and the other jobs stay; every application for the job is gone from the applications
  collection and the other applications stay; and the \<open>appliedJobs\<close> array of every job
  seeker who had an application for the job in the collection has no entry for the job
  any more, its entries for other jobs staying. The database is one MongoDB can hold: the
  ids of the jobs and of the job seekers are unique, and the stored job seekers pass the
  validators of their schema, which \<open>save\<close> runs again.
\<close>

theorem job_delete_cascades:
  assumes "dr_cookie req = Some token" and "token \<noteq> []"
    and "verifyToken env token = Some decoded" and "jwt_role decoded = ''employer''"
    and "newObjectId env (dr_id req) = Some jid"
    and "findOne (\<lambda>j. job_id j = jid) (jobs d) = Some j"
    and "job_employerId j = jwt_userId decoded"
    and "distinct (map job_id (jobs d))" and "distinct (map u_id (jobseekers d))"
    and "\<forall>s \<in> set (jobseekers d). jobseeker_valid s"
  shows "status (fst (jobs_id_DELETE env d req)) = 200 \<and>
         jobs (snd (jobs_id_DELETE env d req)) = filter (\<lambda>x. job_id x \<noteq> jid) (jobs d) \<and>
         applications (snd (jobs_id_DELETE env d req)) =
           filter (\<lambda>a. app_jobId a \<noteq> jid) (applications d) \<and>
         jobseekers (snd (jobs_id_DELETE env d req)) =
           map (\<lambda>s. if u_id s \<in> applicants_of d jid then without_job jid s else s) (jobseekers d) \<and>
         (\<forall>s \<in> set (jobseekers (snd (jobs_id_DELETE env d req))).
            u_id s \<in> applicants_of d jid \<longrightarrow> (\<forall>e \<in> set (appliedJobs s). aj_jobId e \<noteq> jid))"
proof -
  have eq: "jobs_id_DELETE env d req =
      (reply 200 ''Job deleted successfully.'',
       d\<lparr>jobseekers := map (\<lambda>s. if u_id s \<in> applicants_of d jid then without_job jid s else s)
            (jobseekers d),
         applications := filter (\<lambda>a. app_jobId a \<noteq> jid) (applications d),
         jobs := filter (\<lambda>x. job_id x \<noteq> jid) (jobs d)\<rparr>)"
    using assms(1-7)
    by (simp add: jobs_id_DELETE_def Let_def deleteMany_def deleteOne_by_id [OF assms(8)]
        foldl_remove_job_entries_map [OF assms(9,10)] applicants_of_def)
  show ?thesis unfolding eq by (auto simp: reply_def)
qed


theorem job_delete_cascades_witness:
  "status (fst (jobs_id_DELETE sample_env sample_db acme_delete_job)) = 200 \<and>
   jobs (snd (jobs_id_DELETE sample_env sample_db acme_delete_job)) = [analyst_job] \<and>
   applications (snd (jobs_id_DELETE sample_env sample_db acme_delete_job)) = [] \<and>
   jobseekers (snd (jobs_id_DELETE sample_env sample_db acme_delete_job)) =
     [ann\<lparr>appliedJobs := []\<rparr>, bob]"
proof -
  have a: "applicants_of sample_db 100 = {1}"
    by (simp add: applicants_of_def sample_db_def ann_application_def)
  have h1: "dr_cookie acme_delete_job = Some ''token-acme''" "''token-acme'' \<noteq> []"
    by (simp_all add: acme_delete_job_def)
  have h2: "verifyToken sample_env ''token-acme'' =
      Some \<lparr>jwt_userId = 10, jwt_role = ''employer'', jwt_username = ''acme''\<rparr>"
    by (simp add: sample_env_def)
  have h3: "jwt_role \<lparr>jwt_userId = 10, jwt_role = ''employer'', jwt_username = ''acme''\<rparr> =
      ''employer''"
    by simp
  have h4: "newObjectId sample_env (dr_id acme_delete_job) = Some 100"
    by (simp add: sample_env_def acme_delete_job_def)
  have h5: "findOne (\<lambda>j. job_id j = 100) (jobs sample_db) = Some engineer_job"
    by (simp add: findOne_def sample_db_def engineer_job_def)
  have h6: "job_employerId engineer_job =
      jwt_userId \<lparr>jwt_userId = 10, jwt_role = ''employer'', jwt_username = ''acme''\<rparr>"
    by (simp add: engineer_job_def)
  have h7: "distinct (map job_id (jobs sample_db))" "distinct (map u_id (jobseekers sample_db))"
    by (simp_all add: sample_db_def engineer_job_def analyst_job_def ann_def bob_def)
  have h8: "\<forall>s \<in> set (jobseekers sample_db). jobseeker_valid s"
    by (simp add: sample_db_def ann_def bob_def jobseeker_valid_def applied_job_valid_def
        application_statuses_def rating_valid_def)
  have j: "filter (\<lambda>x. job_id x \<noteq> 100) (jobs sample_db) = [analyst_job]"
    by (simp add: sample_db_def engineer_job_def analyst_job_def)
  have ap: "filter (\<lambda>a. app_jobId a \<noteq> 100) (applications sample_db) = []"
    by (simp add: sample_db_def ann_application_def)
  have js: "map (\<lambda>s. if u_id s \<in> {1} then without_job 100 s else s) (jobseekers sample_db) =
      [ann\<lparr>appliedJobs := []\<rparr>, bob]"
    by (simp add: sample_db_def ann_def bob_def without_job_def)
  from job_delete_cascades [OF h1 h2 h3 h4 h5 h6 h7 h8, unfolded a js j ap]
  show ?thesis by blast
qed

section \<open>The two copies of an application\<close>

text \<open>
  C1. An application is stored in exactly two places. In a database that is
  \<open>dual_write_consistent\<close>, every record of the applications collection has its job seeker,
  and that job seeker's \<open>appliedJobs\<close> array has exactly one entry with the record's
  application id, which carries the same job id, status and rating; and every
  \<open>appliedJobs\<close> entry mirrors, with these four values, a record of the collection that
  the job seeker owns. Applying, the employer's PATCH of status or rating and the job
  seeker's DELETE each leave the two copies consistent, and so does the deletion of a job.
  The stored documents pass the validators of their schemas, which \<open>save\<close> runs again and
  which the four handlers keep true as well.
\<close>

theorem dual_write_kept_consistent:
  assumes "dual_write_consistent d" and "schema_valid env d"
  shows "(\<forall>a \<in> set (applications d). \<exists>s \<in> set (jobseekers d). u_id s = app_jobSeekerId a \<and>
            (\<exists>e. filter (\<lambda>e. aj_applicationId e = app_id a) (appliedJobs s) = [e] \<and>
                 entry_fact e = app_fact a)) \<and>
         (\<forall>s \<in> set (jobseekers d). \<forall>e \<in> set (appliedJobs s).
            \<exists>a \<in> set (applications d). app_jobSeekerId a = u_id s \<and> app_fact a = entry_fact e) \<and>
         dual_write_consistent (snd (applications_POST env d ar)) \<and>
         schema_valid env (snd (applications_POST env d ar)) \<and>
         dual_write_consistent (snd (applications_id_PATCH env d pr)) \<and>
         schema_valid env (snd (applications_id_PATCH env d pr)) \<and>
         dual_write_consistent (snd (my_applications_id_DELETE env d dr)) \<and>
         schema_valid env (snd (my_applications_id_DELETE env d dr)) \<and>
         dual_write_consistent (snd (jobs_id_DELETE env d dj)) \<and>
         schema_valid env (snd (jobs_id_DELETE env d dj))"
  using mirrored_once [OF assms(1)] entry_fact_in_apps [OF assms(1)]
    apply_keeps_invariant [OF assms, of ar] patch_keeps_invariant [OF assms, of pr]
    withdraw_keeps_invariant [OF assms, of dr] job_delete_keeps_invariant [OF assms, of dj]
  by blast

theorem dual_write_kept_consistent_witness:
  "dual_write_consistent sample_db \<and> schema_valid sample_env sample_db \<and>
   status (fst (applications_POST sample_env sample_db bob_apply)) = 201 \<and>
   map app_fact (applications (snd (applications_POST sample_env sample_db bob_apply))) =
     [(200, 100, ''Pending'', Some 0), (300, 100, ''Pending'', Some 0)] \<and>
   map (\<lambda>s. map entry_fact (appliedJobs s))
     (jobseekers (snd (applications_POST sample_env sample_db bob_apply))) =
     [[(200, 100, ''Pending'', Some 0)], [(300, 100, ''Pending'', Some 0)]] \<and>
   dual_write_consistent (snd (applications_POST sample_env sample_db bob_apply)) \<and>
   map app_fact (applications (snd (applications_id_PATCH sample_env sample_db acme_patch))) =
     [(200, 100, ''Selected'', Some 4)] \<and>
   map (\<lambda>s. map entry_fact (appliedJobs s))
     (jobseekers (snd (applications_id_PATCH sample_env sample_db acme_patch))) =
     [[(200, 100, ''Selected'', Some 4)], []] \<and>
   dual_write_consistent (snd (applications_id_PATCH sample_env sample_db acme_patch)) \<and>
   status (fst (my_applications_id_DELETE sample_env sample_db ann_withdraw)) = 200 \<and>
   applications (snd (my_applications_id_DELETE sample_env sample_db ann_withdraw)) = [] \<and>
   map appliedJobs (jobseekers (snd (my_applications_id_DELETE sample_env sample_db ann_withdraw))) =
     [[], []] \<and>
   dual_write_consistent (snd (my_applications_id_DELETE sample_env sample_db ann_withdraw))"
proof -
  have c: "dual_write_consistent sample_db"
    by (simp add: dual_write_consistent_def sample_defs app_fact_def entry_fact_def)
  have v: "schema_valid sample_env sample_db"
    by (simp add: schema_valid_def sample_defs jobseeker_valid_def applied_job_valid_def
        application_statuses_def job_valid_def rating_valid_def ascii_trim_def ascii_space_def)
  have p1: "status (fst (applications_POST sample_env sample_db bob_apply)) = 201"
    by (simp add: handler_defs sample_defs bob_apply_def)
  have p2: "map app_fact (applications (snd (applications_POST sample_env sample_db bob_apply))) =
     [(200, 100, ''Pending'', Some 0), (300, 100, ''Pending'', Some 0)]"
    by (simp add: handler_defs sample_defs bob_apply_def)
  have p3: "map (\<lambda>s. map entry_fact (appliedJobs s))
     (jobseekers (snd (applications_POST sample_env sample_db bob_apply))) =
     [[(200, 100, ''Pending'', Some 0)], [(300, 100, ''Pending'', Some 0)]]"
    by (simp add: handler_defs sample_defs bob_apply_def)
  have q1: "map app_fact (applications (snd (applications_id_PATCH sample_env sample_db acme_patch))) =
     [(200, 100, ''Selected'', Some 4)]"
    by (simp add: handler_defs sample_defs acme_patch_def)
  have q2: "map (\<lambda>s. map entry_fact (appliedJobs s))
     (jobseekers (snd (applications_id_PATCH sample_env sample_db acme_patch))) =
     [[(200, 100, ''Selected'', Some 4)], []]"
    by (simp add: handler_defs sample_defs acme_patch_def)
  have w1: "status (fst (my_applications_id_DELETE sample_env sample_db ann_withdraw)) = 200"
    by (simp add: handler_defs sample_defs ann_withdraw_def)
  have w2: "applications (snd (my_applications_id_DELETE sample_env sample_db ann_withdraw)) = []"
    by (simp add: handler_defs sample_defs ann_withdraw_def)
  have w3: "map appliedJobs
     (jobseekers (snd (my_applications_id_DELETE sample_env sample_db ann_withdraw))) = [[], []]"
    by (simp add: handler_defs sample_defs ann_withdraw_def)
  from dual_write_kept_consistent [OF c v, of bob_apply acme_patch ann_withdraw]
    c v p1 p2 p3 q1 q2 w1 w2 w3
  show ?thesis by blast
qed

section \<open>Expired jobs\<close>

text \<open>
  C4, as the handlers have it. An active job whose deadline lies in the past is closed by
  the two list handlers, not by the single-job GET. The public list, when the server can
  parse the deadline of every active job, stores the status Closed for the job and leaves
  it out of its answer, which holds active jobs only. The employer's list, asked by the
  employer who owns the job, answers 200, returns the job with status Closed and stores
  Closed for it. Job ids are unique, as MongoDB's \<open>_id\<close> is.
\<close>

theorem expired_job_closed_by_lists:
  assumes "j \<in> set (jobs d)" and "distinct (map job_id (jobs d))" and "job_status j = ''Active''"
  shows "(deadlines_parse env (jobs d) \<and> expired_on_server env j \<longrightarrow>
            status (fst (jobs_GET env d)) = 200 \<and>
            findOne (\<lambda>x. job_id x = job_id j) (jobs (snd (jobs_GET env d))) = Some (close_job j) \<and>
            (\<exists>listed. payload (fst (jobs_GET env d)) = Some listed \<and>
               (\<forall>x \<in> set listed. job_id x \<noteq> job_id j \<and> job_status x = ''Active''))) \<and>
         (cookie = Some token \<and> token \<noteq> [] \<and> verifyToken env token = Some decoded \<and>
          jwt_role decoded = ''employer'' \<and> job_employerId j = jwt_userId decoded \<and>
          deadline_passed env j \<longrightarrow>
            status (fst (jobs_employer_GET env d cookie)) = 200 \<and>
            findOne (\<lambda>x. job_id x = job_id j) (jobs (snd (jobs_employer_GET env d cookie))) =
              Some (close_job j) \<and>
            (\<exists>listed. payload (fst (jobs_employer_GET env d cookie)) = Some listed \<and>
               job_id j \<in> set (map (\<lambda>v. job_id (fst v)) listed) \<and>
               (\<forall>v \<in> set listed. job_id (fst v) = job_id j \<longrightarrow> job_status (fst v) = ''Closed'')))"
  using jobs_GET_closes [OF assms(1,2), of env]
    jobs_employer_GET_closes [OF assms(1,2), of cookie token env decoded] assms(3)
  by blast

theorem expired_job_closed_by_lists_witness:
  "analyst_job \<in> set (jobs sample_db) \<and> distinct (map job_id (jobs sample_db)) \<and>
   job_status analyst_job = ''Active'' \<and> deadlines_parse sample_env (jobs sample_db) \<and>
   expired_on_server sample_env analyst_job \<and> deadline_passed sample_env analyst_job \<and>
   findOne (\<lambda>x. job_id x = job_id analyst_job) (jobs (snd (jobs_GET sample_env sample_db))) =
     Some (close_job analyst_job) \<and>
   status (fst (jobs_employer_GET sample_env sample_db (Some ''token-acme''))) = 200 \<and>
   findOne (\<lambda>x. job_id x = job_id analyst_job)
     (jobs (snd (jobs_employer_GET sample_env sample_db (Some ''token-acme'')))) =
     Some (close_job analyst_job)"
proof -
  have h: "analyst_job \<in> set (jobs sample_db)" "distinct (map job_id (jobs sample_db))"
    "job_status analyst_job = ''Active''"
    by (simp_all add: sample_db_def analyst_job_def engineer_job_def)
  have p: "deadlines_parse sample_env (jobs sample_db)"
    by (simp add: deadlines_parse_def sample_db_def analyst_job_def engineer_job_def
        sample_env_def truthy_def or_empty_def)
  have e: "expired_on_server sample_env analyst_job"
    by (simp add: expired_on_server_def analyst_job_def sample_env_def truthy_def or_empty_def)
  have e': "deadline_passed sample_env analyst_job"
    by (simp add: deadline_passed_def analyst_job_def sample_env_def)
  have t: "Some ''token-acme'' = Some ''token-acme''" "''token-acme'' \<noteq> []"
    "verifyToken sample_env ''token-acme'' =
      Some \<lparr>jwt_userId = 10, jwt_role = ''employer'', jwt_username = ''acme''\<rparr>"
    "jwt_role \<lparr>jwt_userId = 10, jwt_role = ''employer'', jwt_username = ''acme''\<rparr> = ''employer''"
    "job_employerId analyst_job =
      jwt_userId \<lparr>jwt_userId = 10, jwt_role = ''employer'', jwt_username = ''acme''\<rparr>"
    by (simp_all add: sample_env_def analyst_job_def)
  from expired_job_closed_by_lists [OF h, of sample_env "Some ''token-acme''" "''token-acme''"
      "\<lparr>jwt_userId = 10, jwt_role = ''employer'', jwt_username = ''acme''\<rparr>"]
    h p e e' t
  show ?thesis by blast
qed

text \<open>
  The claim as it was stated fails on the sample deployment: the analyst job is active and
  its deadline has passed, yet the single-job GET returns it with status Active, and the
  public list does not return it at all.
\<close>

theorem expired_job_read_counterexample:
  "analyst_job \<in> set (jobs sample_db) \<and> job_status analyst_job = ''Active'' \<and>
   deadline_passed sample_env analyst_job \<and> expired_on_server sample_env analyst_job \<and>
   status (fst (jobs_id_GET sample_env sample_db ''000000000000000000000101'')) = 200 \<and>
   map_option job_id (payload (fst (jobs_id_GET sample_env sample_db ''000000000000000000000101''))) =
     Some 101 \<and>
   map_option job_status
     (payload (fst (jobs_id_GET sample_env sample_db ''000000000000000000000101''))) =
     Some ''Active'' \<and>
   map_option (map job_id) (payload (fst (jobs_GET sample_env sample_db))) = Some [100]"
proof -
  have 1: "analyst_job \<in> set (jobs sample_db)" "job_status analyst_job = ''Active''"
    by (simp_all add: sample_db_def analyst_job_def)
  have 2: "deadline_passed sample_env analyst_job"
    by (simp add: deadline_passed_def analyst_job_def sample_env_def)
  have 3: "expired_on_server sample_env analyst_job"
    by (simp add: expired_on_server_def analyst_job_def sample_env_def truthy_def or_empty_def)
  have 4: "fst (jobs_id_GET sample_env sample_db ''000000000000000000000101'') =
      reply_with 200 analyst_job"
    by (simp add: jobs_id_GET_def sample_env_def sample_db_def analyst_job_def engineer_job_def
        findOne_def)
  have 5: "close_expired sample_env (jobs sample_db) = ([engineer_job, close_job analyst_job], True)"
    by (simp add: sample_db_def analyst_job_def engineer_job_def sample_env_def truthy_def
        or_empty_def close_job_def)
  have 6: "map_option (map job_id) (payload (fst (jobs_GET sample_env sample_db))) = Some [100]"
    by (simp add: jobs_GET_def 5 Let_def reply_with_def newest_first_def engineer_job_def
        close_job_def)
  from 1 2 3 6 show ?thesis
    by (simp add: 4 reply_with_def analyst_job_def)
qed


section \<open>Registering a taken user name\<close>

text \<open>
  Claim C6, as amended. A registration request whose user name is, up to the case of its
  letters, the user name of a job seeker or of an employer creates no user and sets no
  cookie. It is answered with 409 when it passes the validation steps the handler runs
  before it looks the name up, and with 400 when it fails them. Two names are the same up
  to case when \<open>toLowerCase\<close> maps them to the same string, whatever alphabet they are
  written in. Stored user names are in lower case and trimmed, as the setters of the
  schema write them.
\<close>

theorem register_taken_username:
  assumes "rr_username req = Some name" and "username_taken env d name"
    and "usernames_as_stored env d"
  shows "snd (auth_register_POST env d req) = d \<and>
         auth_token (fst (auth_register_POST env d req)) = None \<and>
         (registration_valid req \<longrightarrow> status (fst (auth_register_POST env d req)) = 409) \<and>
         (\<not> registration_valid req \<longrightarrow> status (fst (auth_register_POST env d req)) = 400)"
  using register_taken [OF assms] register_invalid [of req env d]
  by (cases "registration_valid req") simp_all

theorem register_taken_username_witness:
  "rr_username ann_again = Some ''Ann'' \<and> rr_username ann_again_short = Some ''Ann'' \<and>
   username_taken sample_env sample_db ''Ann'' \<and> usernames_as_stored sample_env sample_db \<and>
   registration_valid ann_again \<and>
   status (fst (auth_register_POST sample_env sample_db ann_again)) = 409 \<and>
   snd (auth_register_POST sample_env sample_db ann_again) = sample_db \<and>
   \<not> registration_valid ann_again_short \<and>
   status (fst (auth_register_POST sample_env sample_db ann_again_short)) = 400 \<and>
   snd (auth_register_POST sample_env sample_db ann_again_short) = sample_db"
proof -
  have lc: "toLowerCase sample_env ''Ann'' = ''ann''" "toLowerCase sample_env ''ann'' = ''ann''"
    "toLowerCase sample_env ''bob'' = ''bob''" "toLowerCase sample_env ''acme'' = ''acme''"
    "toLowerCase sample_env ''globex'' = ''globex''"
    by (simp_all add: sample_env_def ascii_lower_def)
  have tr: "trim sample_env ''ann'' = ''ann''" "trim sample_env ''bob'' = ''bob''"
    "trim sample_env ''acme'' = ''acme''" "trim sample_env ''globex'' = ''globex''"
    by (simp_all add: sample_env_def ascii_trim_def ascii_space_def)
  have h1: "rr_username ann_again = Some ''Ann''" "rr_username ann_again_short = Some ''Ann''"
    by (simp_all add: ann_again_def ann_again_short_def)
  have h2: "username_taken sample_env sample_db ''Ann''"
    by (simp add: username_taken_def sample_db_def ann_def lc)
  have h3: "usernames_as_stored sample_env sample_db"
    by (simp add: usernames_as_stored_def sample_db_def ann_def bob_def acme_def globex_def lc tr)
  have h4: "registration_valid ann_again"
    by (simp add: registration_valid_def ann_again_def truthy_def or_empty_def str_includes_def)
  have h5: "\<not> registration_valid ann_again_short"
    by (simp add: registration_valid_def ann_again_short_def ann_again_def truthy_def or_empty_def)
  from register_taken_username [OF h1(1) h2 h3] register_taken_username [OF h1(2) h2 h3]
    h1 h2 h3 h4 h5
  show ?thesis by blast
qed

text \<open>
  The claim as it was stated fails on the sample deployment: a registration under the taken
  name with a password of three characters is refused by the validation, with status 400.
\<close>

theorem register_taken_username_counterexample:
  "rr_username ann_again_short = Some ''Ann'' \<and> username_taken sample_env sample_db ''Ann'' \<and>
   status (fst (auth_register_POST sample_env sample_db ann_again_short)) = 400"
proof -
  have lc: "toLowerCase sample_env ''Ann'' = ''ann''" "toLowerCase sample_env ''ann'' = ''ann''"
    by (simp_all add: sample_env_def ascii_lower_def)
  have "username_taken sample_env sample_db ''Ann''"
    by (simp add: username_taken_def sample_db_def ann_def lc)
  moreover have "status (fst (auth_register_POST sample_env sample_db ann_again_short)) = 400"
    by (simp add: auth_register_POST_def ann_again_short_def ann_again_def truthy_def
        or_empty_def reply_def)
  ultimately show ?thesis by (simp add: ann_again_short_def ann_again_def)
qed

section \<open>Logging in\<close>

text \<open>
  Claim C7, as amended. When the password of a login request does not match the hash of
  the user the handler looks up (or it finds none), the reply sets no \<open>auth_token\<close> cookie
  and the database is unchanged; the status is 401 when user name and password are both
  non-empty, and 400 when one of them is empty. The handler looks the user up by the name
  of the request in lower case, which the query puts through the setters of the path, so
  a name in other letter case or with white space around it names the same user.
\<close>

theorem login_wrong_password:
  assumes "lr_username req = Some name" and "lr_password req = Some pw"
    and "\<forall>u. login_user env d (lr_role req) (toLowerCase env name) = Some u \<longrightarrow>
           \<not> verifyPassword env pw (u_passwordHash u)"
  shows "auth_token (fst (auth_login_POST env d req)) = None \<and>
         snd (auth_login_POST env d req) = d \<and>
         (name \<noteq> [] \<and> pw \<noteq> [] \<longrightarrow> status (fst (auth_login_POST env d req)) = 401) \<and>
         (name = [] \<or> pw = [] \<longrightarrow> status (fst (auth_login_POST env d req)) = 400)"
  using assms
  by (cases "login_user env d (lr_role req) (toLowerCase env name)")
     (auto simp: auth_login_POST_def truthy_def or_empty_def reply_def)

theorem login_wrong_password_witness:
  "lr_username ann_login_wrong = Some '' Ann '' \<and> lr_password ann_login_wrong = Some ''guess'' \<and>
   login_user sample_env sample_db (lr_role ann_login_wrong) (toLowerCase sample_env '' Ann '') =
     Some (user.truncate ann) \<and>
   \<not> verifyPassword sample_env ''guess'' (u_passwordHash ann) \<and>
   status (fst (auth_login_POST sample_env sample_db ann_login_wrong)) = 401 \<and>
   auth_token (fst (auth_login_POST sample_env sample_db ann_login_wrong)) = None \<and>
   snd (auth_login_POST sample_env sample_db ann_login_wrong) = sample_db"
proof -
  have lc: "toLowerCase sample_env '' Ann '' = '' ann ''"
    "lower_trim sample_env '' ann '' = ''ann''"
    by (simp_all add: sample_env_def lower_trim_def ascii_lower_def ascii_trim_def ascii_space_def)
  have h1: "lr_username ann_login_wrong = Some '' Ann ''"
    "lr_password ann_login_wrong = Some ''guess''" "lr_role ann_login_wrong = None"
    by (simp_all add: ann_login_wrong_def ann_login_def)
  have h2: "login_user sample_env sample_db None '' ann '' = Some (user.truncate ann)"
    by (simp add: login_user_def lc findOne_def sample_db_def ann_def)
  have h3: "\<not> verifyPassword sample_env ''guess'' (u_passwordHash ann)"
    "\<not> verifyPassword sample_env ''guess'' (u_passwordHash (user.truncate ann))"
    by (simp_all add: sample_env_def ann_def user.truncate_def user.defs)
  have h4: "\<forall>u. login_user sample_env sample_db (lr_role ann_login_wrong)
                 (toLowerCase sample_env '' Ann '') = Some u \<longrightarrow>
      \<not> verifyPassword sample_env ''guess'' (u_passwordHash u)"
    using h2 h3 by (simp add: h1 lc)
  from login_wrong_password [OF h1(1,2) h4] h1 h2 h3 lc
  show ?thesis by simp
qed

text \<open>
  The claim as it was stated fails on the sample deployment: the login names the existing
  job seeker with the empty password, which does not match the stored hash, and the status
  is 400.
\<close>

theorem login_wrong_password_counterexample:
  "lr_username ann_login_empty = Some ''Ann'' \<and> lr_password ann_login_empty = Some [] \<and>
   login_user sample_env sample_db (lr_role ann_login_empty) (toLowerCase sample_env ''Ann'') =
     Some (user.truncate ann) \<and>
   \<not> verifyPassword sample_env [] (u_passwordHash ann) \<and>
   status (fst (auth_login_POST sample_env sample_db ann_login_empty)) = 400"
proof -
  have lc: "toLowerCase sample_env ''Ann'' = ''ann''" "lower_trim sample_env ''ann'' = ''ann''"
    by (simp_all add: sample_env_def lower_trim_def ascii_lower_def ascii_trim_def ascii_space_def)
  have h2: "login_user sample_env sample_db None ''ann'' = Some (user.truncate ann)"
    by (simp add: login_user_def lc findOne_def sample_db_def ann_def)
  have h3: "\<not> verifyPassword sample_env [] (u_passwordHash ann)"
    by (simp add: sample_env_def ann_def)
  have h4: "status (fst (auth_login_POST sample_env sample_db ann_login_empty)) = 400"
    by (simp add: auth_login_POST_def ann_login_empty_def ann_login_def truthy_def reply_def)
  have h5: "lr_username ann_login_empty = Some ''Ann''" "lr_password ann_login_empty = Some []"
    "lr_role ann_login_empty = None"
    by (simp_all add: ann_login_empty_def ann_login_def)
  from h2 h3 h4 h5 lc show ?thesis by simp
qed

text \<open>
  Claim C10, as amended. A login with a non-empty user name and password, for which the
  lookup the request's role directs finds a user whose hash the password matches, is
  answered with status 200 and the \<open>auth_token\<close> cookie of that user, whether or not
  \<open>isEmailVerified\<close> is set: nothing in the statement depends on it. The lookup is the
  handler's query: the name in lower case and trimmed, in the job seekers for the role
  job-seeker, in the employers for the role employer, in both otherwise. Registration
  never sets the cookie and the user it returns is unverified; a password reset whose
  token, trimmed, is the unexpired token of an unverified user is refused with 403 and
  changes nothing.
\<close>

theorem login_ignores_email_verification:
  "(lr_username lr = Some name \<and> name \<noteq> [] \<and> lr_password lr = Some pw \<and> pw \<noteq> [] \<and>
    login_user env d (lr_role lr) (toLowerCase env name) = Some u \<and>
    verifyPassword env pw (u_passwordHash u) \<longrightarrow>
      status (fst (auth_login_POST env d lr)) = 200 \<and>
      payload (fst (auth_login_POST env d lr)) = Some u \<and>
      auth_token (fst (auth_login_POST env d lr)) =
        Some (createToken env
          \<lparr>jwt_userId = u_id u, jwt_role = u_role u, jwt_username = u_username u\<rparr>)) \<and>
   auth_token (fst (auth_register_POST env d rr)) = None \<and>
   (\<forall>p. payload (fst (auth_register_POST env d rr)) = Some p \<longrightarrow> \<not> u_isEmailVerified p) \<and>
   (rs_token rs = Some token \<and> token \<noteq> [] \<and> rs_newPassword rs = Some newPassword \<and>
    6 \<le> length newPassword \<and> reset_user env d token = Some v \<and>
    \<not> isTokenExpired env (u_passwordResetTokenExpiry v) \<and> \<not> u_isEmailVerified v \<longrightarrow>
      status (fst (auth_reset_password_POST env d rs)) = 403 \<and>
      snd (auth_reset_password_POST env d rs) = d)"
proof (intro conjI impI allI)
  assume a: "lr_username lr = Some name \<and> name \<noteq> [] \<and> lr_password lr = Some pw \<and> pw \<noteq> [] \<and>
    login_user env d (lr_role lr) (toLowerCase env name) = Some u \<and>
    verifyPassword env pw (u_passwordHash u)"
  then show "status (fst (auth_login_POST env d lr)) = 200"
    and "payload (fst (auth_login_POST env d lr)) = Some u"
    and "auth_token (fst (auth_login_POST env d lr)) =
        Some (createToken env
          \<lparr>jwt_userId = u_id u, jwt_role = u_role u, jwt_username = u_username u\<rparr>)"
    by (simp_all add: auth_login_POST_def truthy_def or_empty_def)
next
  show "auth_token (fst (auth_register_POST env d rr)) = None" by simp
next
  fix p assume "payload (fst (auth_register_POST env d rr)) = Some p"
  then show "\<not> u_isEmailVerified p" by (rule register_payload_unverified)
next
  assume a: "rs_token rs = Some token \<and> token \<noteq> [] \<and> rs_newPassword rs = Some newPassword \<and>
    6 \<le> length newPassword \<and> reset_user env d token = Some v \<and>
    \<not> isTokenExpired env (u_passwordResetTokenExpiry v) \<and> \<not> u_isEmailVerified v"
  with reset_unverified_refused [of rs token newPassword env d v]
  show "status (fst (auth_reset_password_POST env d rs)) = 403"
    and "snd (auth_reset_password_POST env d rs) = d"
    by simp_all
qed

theorem login_ignores_email_verification_witness:
  "lr_username ann_login_padded = Some '' Ann '' \<and> lr_password ann_login_padded = Some ''secret1'' \<and>
   login_user sample_env sample_db (lr_role ann_login_padded) (toLowerCase sample_env '' Ann '') =
     Some (user.truncate ann) \<and>
   verifyPassword sample_env ''secret1'' (u_passwordHash (user.truncate ann)) \<and>
   \<not> u_isEmailVerified (user.truncate ann) \<and>
   status (fst (auth_login_POST sample_env sample_db ann_login_padded)) = 200 \<and>
   auth_token (fst (auth_login_POST sample_env sample_db ann_login_padded)) = Some ''jwt.ann'' \<and>
   status (fst (auth_register_POST sample_env sample_db carl_register)) = 201 \<and>
   auth_token (fst (auth_register_POST sample_env sample_db carl_register)) = None \<and>
   map_option u_isEmailVerified
     (payload (fst (auth_register_POST sample_env sample_db carl_register))) = Some False \<and>
   rs_token ann_reset = Some ''r-ann '' \<and> rs_newPassword ann_reset = Some ''secret7'' \<and>
   reset_user sample_env sample_db ''r-ann '' = Some (user.truncate ann) \<and>
   \<not> isTokenExpired sample_env (u_passwordResetTokenExpiry (user.truncate ann)) \<and>
   status (fst (auth_reset_password_POST sample_env sample_db ann_reset)) = 403 \<and>
   snd (auth_reset_password_POST sample_env sample_db ann_reset) = sample_db"
proof -
  let ?u = "user.truncate ann"
  have lc: "toLowerCase sample_env '' Ann '' = '' ann ''"
    "lower_trim sample_env '' ann '' = ''ann''"
    by (simp_all add: sample_env_def lower_trim_def ascii_lower_def ascii_trim_def ascii_space_def)
  have l1: "lr_username ann_login_padded = Some '' Ann ''"
    "lr_password ann_login_padded = Some ''secret1''" "lr_role ann_login_padded = None"
    by (simp_all add: ann_login_padded_def ann_login_def)
  have l2: "login_user sample_env sample_db None '' ann '' = Some ?u"
    by (simp add: login_user_def lc findOne_def sample_db_def ann_def)
  have u: "u_passwordHash ?u = ''bcrypt.secret1''" "\<not> u_isEmailVerified ?u"
    "u_id ?u = 1" "u_role ?u = ''job-seeker''" "u_username ?u = ''ann''"
    "u_passwordResetTokenExpiry ?u = Some 1717300000000"
    by (simp_all add: ann_def user.truncate_def user.defs)
  have l3: "verifyPassword sample_env ''secret1'' ''bcrypt.secret1''"
    by (simp add: sample_env_def)
  have l4: "createToken sample_env p = ''jwt.'' @ jwt_username p" for p
    by (simp add: sample_env_def)
  have rlc: "toLowerCase sample_env ''carl'' = ''carl''"
    "toLowerCase sample_env ''carl@example.com'' = ''carl@example.com''"
    by (simp_all add: sample_env_def ascii_lower_def)
  have tr: "trim sample_env ''carl@example.com'' = ''carl@example.com''"
    "trim sample_env ''carl'' = ''carl''" "trim sample_env ''5f2a9c'' = ''5f2a9c''"
    by (simp_all add: sample_env_def ascii_trim_def ascii_space_def)
  have lt: "lower_trim sample_env ''carl@example.com'' = ''carl@example.com''"
    "lower_trim sample_env ''carl'' = ''carl''"
    by (simp_all add: lower_trim_def rlc tr)
  have ev: "secureToken sample_env = ''5f2a9c''" "freshObjectId sample_env = 300"
    "hashPassword sample_env ''secret5'' = ''bcrypt.secret5''"
    by (simp_all add: sample_env_def)
  have ec: "Employer_create sample_env (new_user sample_env carl_register) (employers sample_db) =
    Inr (new_user sample_env carl_register,
         employers sample_db @ [new_user sample_env carl_register])"
    by (simp add: Employer_create_def new_user_def carl_register_def or_empty_def rlc tr lt
        user_valid_def sample_db_def acme_def globex_def Let_def ev)
  have pre: "\<not> ((\<exists>s \<in> set (jobseekers sample_db). u_username s = ''carl'' \<or> u_email s = ''carl@example.com'') \<or>
             (\<exists>e \<in> set (employers sample_db). u_username e = ''carl'' \<or> u_email e = ''carl@example.com''))"
    by (simp add: sample_db_def ann_def bob_def acme_def globex_def)
  have rq: "rr_username carl_register = Some ''carl''" "rr_password carl_register = Some ''secret5''"
    "rr_firstName carl_register = Some ''Carl''" "rr_lastName carl_register = Some ''Berg''"
    "rr_role carl_register = Some ''employer''" "rr_email carl_register = Some ''carl@example.com''"
    by (simp_all add: carl_register_def)
  have "fst (auth_register_POST sample_env sample_db carl_register) =
      reply_with 201 (new_user sample_env carl_register)"
    using pre
    by (simp add: auth_register_POST_def rq truthy_def or_empty_def str_includes_def rlc tr lt ec
        Let_def)
  then have r1: "status (fst (auth_register_POST sample_env sample_db carl_register)) = 201"
    and r2: "payload (fst (auth_register_POST sample_env sample_db carl_register)) \<noteq> None"
    by (simp_all add: reply_with_def)
  have s1: "rs_token ann_reset = Some ''r-ann ''" "rs_newPassword ann_reset = Some ''secret7''"
    by (simp_all add: ann_reset_def)
  have s2: "reset_user sample_env sample_db ''r-ann '' = Some ?u"
    by (simp add: reset_user_def findOne_def sample_db_def ann_def sample_env_def ascii_trim_def
        ascii_space_def)
  have s3: "\<not> isTokenExpired sample_env (Some 1717300000000)"
    by (simp add: isTokenExpired_def sample_env_def)
  note inst = login_ignores_email_verification [where lr = ann_login_padded and name = "'' Ann ''"
      and pw = "''secret1''" and d = sample_db and u = ?u and env = sample_env
      and rr = carl_register and rs = ann_reset and token = "''r-ann ''"
      and newPassword = "''secret7''" and v = ?u]
  from inst have a: "status (fst (auth_login_POST sample_env sample_db ann_login_padded)) = 200"
    "auth_token (fst (auth_login_POST sample_env sample_db ann_login_padded)) = Some ''jwt.ann''"
    by (simp_all add: l1 lc l2 u l3 l4)
  from inst have b: "auth_token (fst (auth_register_POST sample_env sample_db carl_register)) = None"
    "\<forall>p. payload (fst (auth_register_POST sample_env sample_db carl_register)) = Some p \<longrightarrow>
       \<not> u_isEmailVerified p"
    by blast+
  from inst have c: "status (fst (auth_reset_password_POST sample_env sample_db ann_reset)) = 403"
    "snd (auth_reset_password_POST sample_env sample_db ann_reset) = sample_db"
    by (simp_all add: s1 s2 u s3)
  from b(2) r2 have b': "map_option u_isEmailVerified
     (payload (fst (auth_register_POST sample_env sample_db carl_register))) = Some False"
    by (cases "payload (fst (auth_register_POST sample_env sample_db carl_register))") simp_all
  show ?thesis
    using l1 l2 lc u l3 a r1 b(1) b' s1 s2 s3 c by simp
qed

text \<open>
  The claim as it was stated fails on the sample deployment: the unverified job seeker's
  user name and password both match, but the request carries the role of an employer, the
  handler searches only the employers, and the status is 401 with no cookie.
\<close>

theorem login_ignores_email_verification_counterexample:
  "ann \<in> set (jobseekers sample_db) \<and> \<not> u_isEmailVerified ann \<and>
   lr_username ann_login_as_employer = Some ''Ann'' \<and>
   toLowerCase sample_env ''Ann'' = u_username ann \<and>
   lr_password ann_login_as_employer = Some ''secret1'' \<and>
   verifyPassword sample_env ''secret1'' (u_passwordHash ann) \<and>
   status (fst (auth_login_POST sample_env sample_db ann_login_as_employer)) = 401 \<and>
   auth_token (fst (auth_login_POST sample_env sample_db ann_login_as_employer)) = None"
proof -
  have lc: "toLowerCase sample_env ''Ann'' = ''ann''" "lower_trim sample_env ''ann'' = ''ann''"
    by (simp_all add: sample_env_def lower_trim_def ascii_lower_def ascii_trim_def ascii_space_def)
  have 1: "ann \<in> set (jobseekers sample_db)" by (simp add: sample_db_def)
  have 2: "\<not> u_isEmailVerified ann" "u_username ann = ''ann''"
    "verifyPassword sample_env ''secret1'' (u_passwordHash ann)"
    by (simp_all add: ann_def sample_env_def)
  have 3: "login_user sample_env sample_db (Some ''employer'') ''ann'' = None"
    by (simp add: login_user_def lc findOne_def sample_db_def acme_def globex_def)
  have 4: "fst (auth_login_POST sample_env sample_db ann_login_as_employer) =
      reply 401 ''Invalid credentials.''"
    by (simp add: auth_login_POST_def ann_login_as_employer_def ann_login_def truthy_def
        or_empty_def lc 3)
  have 5: "status (fst (auth_login_POST sample_env sample_db ann_login_as_employer)) = 401"
    "auth_token (fst (auth_login_POST sample_env sample_db ann_login_as_employer)) = None"
    by (simp_all add: 4 reply_def)
  have 6: "lr_username ann_login_as_employer = Some ''Ann''"
    "lr_password ann_login_as_employer = Some ''secret1''"
    by (simp_all add: ann_login_as_employer_def ann_login_def)
  from 1 2 5 6 lc show ?thesis by simp
qed
end
